theory Spec2Isabelle
  imports Main "HOL-Library.AList"
begin

section \<open>Values exchanged with the node\<close>

text \<open>
  The client of \<^verbatim>\<open>packages/web3-eth/src/index.ts\<close> handles plain JavaScript values:
  strings, numbers, bigints, booleans, \<^verbatim>\<open>null\<close>, \<^verbatim>\<open>undefined\<close>, arrays and objects.
  Numbers are modelled by their integer value (fractions and NaN are outside the model);
  an object is an association list, which keeps the insertion order of its keys the way
  a JavaScript object does.
\<close>

datatype jsval =
    JUndefined
  | JNull
  | JBool bool
  | JNum int
  | JBigInt int
  | JStr string
  | JArr "jsval list"
  | JObj "(string \<times> jsval) list"

type_synonym jsobject = "(string \<times> jsval) list"

text \<open>Property read \<^verbatim>\<open>obj.key\<close>: a missing key reads as \<^verbatim>\<open>undefined\<close>.\<close>

definition getProp :: "jsobject \<Rightarrow> string \<Rightarrow> jsval" where
  "getProp obj k = (case map_of obj k of None \<Rightarrow> JUndefined | Some v \<Rightarrow> v)"

text \<open>JavaScript truthiness, as tested by \<^verbatim>\<open>x ? a : b\<close> and \<^verbatim>\<open>x || y\<close>.\<close>

fun truthy :: "jsval \<Rightarrow> bool" where
  "truthy JUndefined = False"
| "truthy JNull = False"
| "truthy (JBool b) = b"
| "truthy (JNum n) = (n \<noteq> 0)"
| "truthy (JBigInt n) = (n \<noteq> 0)"
| "truthy (JStr s) = (s \<noteq> [])"
| "truthy (JArr xs) = True"
| "truthy (JObj kvs) = True"

text \<open>
  Errors. \<open>ConversionError\<close> is the failure of the format converter and carries the
  rejected value; \<open>TransportError\<close> is whatever the request manager rejects with;
  \<open>Error ctx cause\<close> is the value built by
  \<^verbatim>\<open>throw Error(`${ctx}: ${error.message}`)\<close> in every \<^verbatim>\<open>catch\<close> block: the context
  message of the method followed by the message of the cause.
\<close>

datatype error =
    ConversionError jsval
  | TransportError string
  | Error string error

text \<open>Modelled from the spec: the enumeration \<^verbatim>\<open>ValidTypesEnum\<close> of \<^verbatim>\<open>web3-utils/types\<close>,
  not among the sources; section 4.1 enumerates the target representations
  HexString, Number, BigInt-like and DecimalString.\<close>

datatype ValidTypesEnum = HexString | DecimalString | Number | BigIntLike

section \<open>The format converter\<close>

subsection \<open>Digits\<close>

text \<open>Modelled from the spec: the characters of the numerals of section 4.1, whose
  scanner in \<^verbatim>\<open>web3-utils\<close> is not among the sources: the value of a digit, the hex letters
  in either case.\<close>

definition digitValue :: "char \<Rightarrow> nat option" where
  "digitValue c =
     map_of
       [(CHR ''0'', 0), (CHR ''1'', 1), (CHR ''2'', 2), (CHR ''3'', 3), (CHR ''4'', 4),
        (CHR ''5'', 5), (CHR ''6'', 6), (CHR ''7'', 7), (CHR ''8'', 8), (CHR ''9'', 9),
        (CHR ''a'', 10), (CHR ''b'', 11), (CHR ''c'', 12), (CHR ''d'', 13), (CHR ''e'', 14),
        (CHR ''f'', 15),
        (CHR ''A'', 10), (CHR ''B'', 11), (CHR ''C'', 12), (CHR ''D'', 13), (CHR ''E'', 14),
        (CHR ''F'', 15)] c"

text \<open>Modelled from the spec: the lowercase digit of a value below 16, for the lowercase
  hex output of section 4.1.\<close>

definition digitChar :: "nat \<Rightarrow> char" where
  "digitChar d = ''0123456789abcdef'' ! d"

text \<open>Modelled from the spec: the digits of a decimal and of a hex numeral.\<close>

definition isDecimalDigit :: "char \<Rightarrow> bool" where
  "isDecimalDigit c = (case digitValue c of None \<Rightarrow> False | Some d \<Rightarrow> d < 10)"

definition isHexDigit :: "char \<Rightarrow> bool" where
  "isHexDigit c = (case digitValue c of None \<Rightarrow> False | Some d \<Rightarrow> True)"

text \<open>Modelled from the spec: the quantity a numeral of section 4.1 denotes, the value of
  its big-endian digit string in base \<open>b\<close>. The converter applies it to recognised
  numerals only; a character that is no digit would count as 0.\<close>

definition digitsValue :: "nat \<Rightarrow> string \<Rightarrow> nat" where
  "digitsValue b cs = foldl (\<lambda>a c. a * b + (case digitValue c of None \<Rightarrow> 0 | Some d \<Rightarrow> d)) 0 cs"

text \<open>Modelled from the spec: the digits a quantity is printed with (section 4.1), the
  big-endian digits of \<open>n\<close> in base \<open>b\<close> without leading zeros: none for 0.\<close>

function toDigits :: "nat \<Rightarrow> nat \<Rightarrow> string" where
  "toDigits b n =
     (if n = 0 \<or> b < 2 then [] else toDigits b (n div b) @ [digitChar (n mod b)])"
  by pat_completeness auto
termination
  by (relation "measure (\<lambda>(b, n). n)") auto

declare toDigits.simps [simp del]

subsection \<open>Recognising the input\<close>

text \<open>Modelled from the spec: the input syntax of the converter of \<^verbatim>\<open>web3-utils\<close>, not
  among the sources. Section 4.1: the input may be a hex string (prefixed), a decimal
  numeric string, or a native integer/bigint.\<close>

definition isHexString :: "string \<Rightarrow> bool" where
  "isHexString s = (take 2 s = ''0x'' \<and> drop 2 s \<noteq> [] \<and> list_all isHexDigit (drop 2 s))"

text \<open>Modelled from the spec: a decimal numeric string (section 4.1), a non-empty run of
  decimal digits; the recogniser of \<^verbatim>\<open>web3-utils\<close> is not among the sources.\<close>

definition isDecimalString :: "string \<Rightarrow> bool" where
  "isDecimalString s = (s \<noteq> [] \<and> list_all isDecimalDigit s)"

text \<open>Modelled from the spec: the quantity an input denotes (section 4.1); the parser of
  \<^verbatim>\<open>web3-utils\<close> is not among the sources. The converter fails with \<open>ConversionError\<close> when
  the input is not a syntactically valid hex or decimal numeral. The wire format has no
  numeral for a negative quantity, so a negative native integer is rejected as well.\<close>

definition parseValue :: "jsval \<Rightarrow> error + nat" where
  "parseValue v =
     (case v of
        JNum n \<Rightarrow> if 0 \<le> n then Inr (nat n) else Inl (ConversionError v)
      | JBigInt n \<Rightarrow> if 0 \<le> n then Inr (nat n) else Inl (ConversionError v)
      | JStr s \<Rightarrow>
          if isHexString s then Inr (digitsValue 16 (drop 2 s))
          else if isDecimalString s then Inr (digitsValue 10 s)
          else Inl (ConversionError v)
      | _ \<Rightarrow> Inl (ConversionError v))"

subsection \<open>Producing the output\<close>

text \<open>Modelled from the spec: the HexString representation (section 4.1),
  zero-left-trimmed lowercase 0x-prefixed hex; the printer of \<^verbatim>\<open>web3-utils\<close> is not among
  the sources.\<close>

definition toHexString :: "nat \<Rightarrow> string" where
  "toHexString n = ''0x'' @ (if n = 0 then ''0'' else toDigits 16 n)"

text \<open>Modelled from the spec: the DecimalString representation (section 4.1), a base-10
  string; the printer of \<^verbatim>\<open>web3-utils\<close> is not among the sources.\<close>

definition toDecimalString :: "nat \<Rightarrow> string" where
  "toDecimalString n = (if n = 0 then ''0'' else toDigits 10 n)"

text \<open>Modelled from the spec: the safe integer range of the Number representation
  (section 4.1), the largest integer a native number holds exactly.\<close>

definition MAX_SAFE_INTEGER :: int where
  "MAX_SAFE_INTEGER = 2 ^ 53 - 1"

text \<open>Modelled from the spec: \<^verbatim>\<open>convert(value, targetRepresentation)\<close> of section 4.1; the
  converter of \<^verbatim>\<open>web3-utils\<close> is not among the sources. It fails with \<open>ConversionError\<close>
  on an invalid numeral and when the Number representation would lose precision.\<close>

definition convert :: "jsval \<Rightarrow> ValidTypesEnum \<Rightarrow> error + jsval" where
  "convert v t =
     (case parseValue v of
        Inl e \<Rightarrow> Inl e
      | Inr n \<Rightarrow>
          (case t of
             HexString \<Rightarrow> Inr (JStr (toHexString n))
           | DecimalString \<Rightarrow> Inr (JStr (toDecimalString n))
           | Number \<Rightarrow>
               if int n \<le> MAX_SAFE_INTEGER then Inr (JNum (int n)) else Inl (ConversionError v)
           | BigIntLike \<Rightarrow> Inr (JBigInt (int n))))"

text \<open>Modelled from the spec: the byte-length padding variant of section 4.1, which
  left-pads the hex output with zero bytes to the target byte width and fails with
  \<open>ConversionError\<close> if the input already exceeds the requested width; the overload of
  \<^verbatim>\<open>web3-utils\<close> is not among the sources.\<close>

definition convertPadded :: "jsval \<Rightarrow> nat \<Rightarrow> error + string" where
  "convertPadded v byteWidth =
     (case parseValue v of
        Inl e \<Rightarrow> Inl e
      | Inr n \<Rightarrow>
          (let ds = toDigits 16 n in
           if 2 * byteWidth < length ds then Inl (ConversionError v)
           else Inr (''0x'' @ replicate (2 * byteWidth - length ds) CHR ''0'' @ ds)))"

text \<open>Modelled from the spec: \<^verbatim>\<open>formatInput(value, byteLength?)\<close> of \<^verbatim>\<open>web3-utils\<close>, not
  among the sources: the converter with target HexString that the call dispatcher of
  section 4.2 applies to a parameter before inclusion, with the optional byte width.\<close>

definition formatInput :: "jsval \<Rightarrow> nat option \<Rightarrow> error + string" where
  "formatInput v byteLength =
     (case byteLength of
        None \<Rightarrow> (case parseValue v of Inl e \<Rightarrow> Inl e | Inr n \<Rightarrow> Inr (toHexString n))
      | Some w \<Rightarrow> convertPadded v w)"

text \<open>Modelled from the spec: \<^verbatim>\<open>formatOutput(value, type)\<close> of \<^verbatim>\<open>web3-utils\<close>, not among
  the sources: the converter of section 4.1 applied to a scalar result.\<close>

definition formatOutput :: "jsval \<Rightarrow> ValidTypesEnum \<Rightarrow> error + jsval" where
  "formatOutput v t = convert v t"




section \<open>The result normalizer\<close>

text \<open>Failing computations run left to right and stop at the first error, as the
  evaluation of an array literal whose elements may throw does.\<close>

definition bindE :: "error + 'a \<Rightarrow> ('a \<Rightarrow> error + 'b) \<Rightarrow> error + 'b" where
  "bindE r k = (case r of Inl e \<Rightarrow> Inl e | Inr v \<Rightarrow> k v)"

fun sequenceE :: "(error + 'a) list \<Rightarrow> error + 'a list" where
  "sequenceE [] = Inr []"
| "sequenceE (r # rs) =
     (case r of
        Inl e \<Rightarrow> Inl e
      | Inr v \<Rightarrow> (case sequenceE rs of Inl e \<Rightarrow> Inl e | Inr vs \<Rightarrow> Inr (v # vs)))"

text \<open>Modelled from the spec: the field conversion of the result normalizer (section 4.3);
  the function of \<^verbatim>\<open>web3-utils\<close> is not among the sources. Each field name of
  \<open>fieldsToDecode\<close> present in the record is converted to the target representation; a
  named field that is absent is skipped; fields not named are left as received.\<close>

fun normalizeFields :: "jsobject \<Rightarrow> string list \<Rightarrow> ValidTypesEnum \<Rightarrow> error + jsobject" where
  "normalizeFields obj [] t = Inr obj"
| "normalizeFields obj (f # fs) t =
     (case map_of obj f of
        None \<Rightarrow> normalizeFields obj fs t
      | Some v \<Rightarrow>
          (case convert v t of
             Inl e \<Rightarrow> Inl e
           | Inr v' \<Rightarrow> normalizeFields (AList.update f v' obj) fs t))"

text \<open>Modelled from the spec: the normalization of one result that is not a sequence
  (section 4.3): it applies to the structured record form only; a null result, the
  boolean form of the syncing status and any other scalar pass through unchanged.\<close>

definition normalizeRecord :: "jsval \<Rightarrow> string list \<Rightarrow> ValidTypesEnum \<Rightarrow> error + jsval" where
  "normalizeRecord v fields t =
     (case v of
        JObj obj \<Rightarrow> (case normalizeFields obj fields t of Inl e \<Rightarrow> Inl e | Inr obj' \<Rightarrow> Inr (JObj obj'))
      | _ \<Rightarrow> Inr v)"

text \<open>Modelled from the spec: \<^verbatim>\<open>formatRpcResultArray(result, fields, type)\<close> of
  \<^verbatim>\<open>web3-utils\<close>, not among the sources: \<^verbatim>\<open>normalize(rawResult, fieldsToDecode,
  targetRepresentation)\<close> of section 4.3. When the raw result is a sequence, normalization
  is applied independently to every element.\<close>

definition formatRpcResultArray :: "jsval \<Rightarrow> string list \<Rightarrow> ValidTypesEnum \<Rightarrow> error + jsval" where
  "formatRpcResultArray rawResult fields t =
     (case rawResult of
        JArr xs \<Rightarrow>
          (case sequenceE (map (\<lambda>x. normalizeRecord x fields t) xs) of
             Inl e \<Rightarrow> Inl e
           | Inr ys \<Rightarrow> Inr (JArr ys))
      | _ \<Rightarrow> normalizeRecord rawResult fields t)"

section \<open>The client \<^verbatim>\<open>Web3Eth\<close>\<close>

subsection \<open>Collaborators and configuration\<close>

text \<open>Modelled from the spec: the type \<^verbatim>\<open>CallOptions\<close> of \<^verbatim>\<open>web3-providers-base/types\<close>,
  not among the sources. Section 6 enumerates the per-call keys: the desired output
  representation, the subscribe-vs-send mode, and the raw transport options; the client
  reads them as \<^verbatim>\<open>returnType\<close>, \<^verbatim>\<open>subscribe\<close>, \<^verbatim>\<open>rpcOptions\<close> and
  \<^verbatim>\<open>providerCallOptions\<close>. An absent \<^verbatim>\<open>rpcOptions\<close> spreads to no key, an absent
  \<^verbatim>\<open>providerCallOptions\<close> reads as \<^verbatim>\<open>undefined\<close>, an absent \<^verbatim>\<open>subscribe\<close> is falsy.\<close>

record CallOptions =
  rpcOptions :: jsobject
  providerCallOptions :: jsval
  returnType :: "ValidTypesEnum option"
  subscribe :: bool

text \<open>Modelled from the spec: the request manager of \<^verbatim>\<open>web3-core-requestmanager\<close>, an
  external collaborator (section 6) with \<^verbatim>\<open>send(descriptor, transportOptions)\<close> and
  \<^verbatim>\<open>subscribe(descriptor, transportOptions)\<close>; either may reject.\<close>

record Web3RequestManager =
  rm_send :: "jsobject \<Rightarrow> jsval \<Rightarrow> error + jsobject"
  rm_subscribe :: "jsobject \<Rightarrow> jsval \<Rightarrow> error + jsval"

record Web3Eth =
  requestManager :: Web3RequestManager
  defaultReturnType :: ValidTypesEnum

text \<open>The constructor: \<^verbatim>\<open>options.returnType || ValidTypesEnum.HexString\<close>.\<close>

definition constructor :: "Web3RequestManager \<Rightarrow> ValidTypesEnum option \<Rightarrow> Web3Eth" where
  "constructor manager optionsReturnType =
     \<lparr>requestManager = manager,
      defaultReturnType = (case optionsReturnType of None \<Rightarrow> HexString | Some t \<Rightarrow> t)\<rparr>"

text \<open>What an operation does to the request manager, in order, and what it resolves to:
  the response of \<^verbatim>\<open>send\<close> or the subscription handle of \<^verbatim>\<open>subscribe\<close>.\<close>

datatype transmission = Sent jsobject jsval | Subscribed jsobject jsval

datatype reply = Response jsobject | Subscription jsval

type_synonym 'a effect = "transmission list \<times> (error + 'a)"

text \<open>Optional chaining on \<^verbatim>\<open>callOptions?\<close>.\<close>

definition rpcOptionsOf :: "CallOptions option \<Rightarrow> jsobject" where
  "rpcOptionsOf callOptions = (case callOptions of None \<Rightarrow> [] | Some c \<Rightarrow> rpcOptions c)"

definition providerCallOptionsOf :: "CallOptions option \<Rightarrow> jsval" where
  "providerCallOptionsOf callOptions =
     (case callOptions of None \<Rightarrow> JUndefined | Some c \<Rightarrow> providerCallOptions c)"

definition subscribeOf :: "CallOptions option \<Rightarrow> bool" where
  "subscribeOf callOptions = (case callOptions of None \<Rightarrow> False | Some c \<Rightarrow> subscribe c)"

text \<open>\<^verbatim>\<open>callOptions?.returnType || this._defaultReturnType\<close>\<close>

definition returnTypeOr :: "CallOptions option \<Rightarrow> ValidTypesEnum \<Rightarrow> ValidTypesEnum" where
  "returnTypeOr callOptions d =
     (case callOptions of
        None \<Rightarrow> d
      | Some c \<Rightarrow> (case returnType c of None \<Rightarrow> d | Some t \<Rightarrow> t))"

text \<open>The request object \<^verbatim>\<open>{...callOptions?.rpcOptions, method, params}\<close>.\<close>

definition request :: "string \<Rightarrow> jsval list \<Rightarrow> CallOptions option \<Rightarrow> jsobject" where
  "request method params callOptions =
     AList.update ''params'' (JArr params)
       (AList.update ''method'' (JStr method) (rpcOptionsOf callOptions))"

definition Web3Eth_send ::
  "Web3Eth \<Rightarrow> string \<Rightarrow> jsval list \<Rightarrow> CallOptions option \<Rightarrow> jsobject effect" where
  "Web3Eth_send this method params callOptions =
     ([Sent (request method params callOptions) (providerCallOptionsOf callOptions)],
      rm_send (requestManager this) (request method params callOptions)
        (providerCallOptionsOf callOptions))"

definition Web3Eth_subscribe ::
  "Web3Eth \<Rightarrow> string \<Rightarrow> jsval list \<Rightarrow> CallOptions option \<Rightarrow> jsval effect" where
  "Web3Eth_subscribe this method params callOptions =
     ([Subscribed (request method params callOptions) (providerCallOptionsOf callOptions)],
      rm_subscribe (requestManager this) (request method params callOptions)
        (providerCallOptionsOf callOptions))"

text \<open>Modelled from the spec: the enumeration \<^verbatim>\<open>BlockTags\<close> of \<^verbatim>\<open>../types\<close>, not among the
  sources; section 4.2 enumerates the reserved keywords.\<close>

definition BlockTags :: "string list" where
  "BlockTags = [''latest'', ''earliest'', ''pending'']"

text \<open>\<^verbatim>\<open>Object.values(BlockTags).includes(value)\<close>\<close>

definition Web3Eth_isBlockTag :: "jsval \<Rightarrow> bool" where
  "Web3Eth_isBlockTag v = (v \<in> set (map JStr BlockTags))"

subsection \<open>The stanzas every method is made of\<close>

text \<open>\<^verbatim>\<open>try { ... } catch (error) { throw Error(`${ctx}: ${error.message}`) }\<close>\<close>

definition tryCatch :: "string \<Rightarrow> 'a effect \<Rightarrow> 'a effect" where
  "tryCatch ctx r = (case snd r of Inl e \<Rightarrow> (fst r, Inl (Error ctx e)) | Inr v \<Rightarrow> r)"

text \<open>The elements of the parameter array are evaluated before anything is transmitted;
  the first one that throws leaves the \<^verbatim>\<open>try\<close> block.\<close>

definition withParams :: "(error + jsval) list \<Rightarrow> (jsval list \<Rightarrow> 'a effect) \<Rightarrow> 'a effect" where
  "withParams ps k = (case sequenceE ps of Inl e \<Rightarrow> ([], Inl e) | Inr vs \<Rightarrow> k vs)"

text \<open>\<^verbatim>\<open>formatInput(value)\<close> and \<^verbatim>\<open>formatInput(value, byteLength)\<close> as an array element.\<close>

definition inputParam :: "jsval \<Rightarrow> nat option \<Rightarrow> error + jsval" where
  "inputParam v byteLength =
     (case formatInput v byteLength of Inl e \<Rightarrow> Inl e | Inr h \<Rightarrow> Inr (JStr h))"

text \<open>\<^verbatim>\<open>return callOptions?.subscribe ? await this._subscribe(...requestParameters)
  : await this._send(...requestParameters)\<close>\<close>

definition sendOrSubscribe ::
  "Web3Eth \<Rightarrow> string \<times> jsval list \<times> CallOptions option \<Rightarrow> reply effect" where
  "sendOrSubscribe this requestParameters =
     (case requestParameters of (method, params, callOptions) \<Rightarrow>
        if subscribeOf callOptions
        then (case Web3Eth_subscribe this method params callOptions of
                (ts, r) \<Rightarrow> (ts, map_sum id Subscription r))
        else (case Web3Eth_send this method params callOptions of
                (ts, r) \<Rightarrow> (ts, map_sum id Response r)))"

text \<open>\<^verbatim>\<open>if (callOptions?.subscribe) return await this._subscribe(...requestParameters);
  const response = await this._send(...requestParameters);
  return {...response, result: format(response.result)}\<close>\<close>

definition sendAndFormat ::
  "Web3Eth \<Rightarrow> string \<times> jsval list \<times> CallOptions option \<Rightarrow> (jsval \<Rightarrow> error + jsval)
   \<Rightarrow> reply effect" where
  "sendAndFormat this requestParameters format =
     (case requestParameters of (method, params, callOptions) \<Rightarrow>
        if subscribeOf callOptions
        then (case Web3Eth_subscribe this method params callOptions of
                (ts, r) \<Rightarrow> (ts, map_sum id Subscription r))
        else (case Web3Eth_send this method params callOptions of
                (ts, Inl e) \<Rightarrow> (ts, Inl e)
              | (ts, Inr response) \<Rightarrow>
                  (case format (getProp response ''result'') of
                     Inl e \<Rightarrow> (ts, Inl e)
                   | Inr result \<Rightarrow> (ts, Inr (Response (AList.update ''result'' result response))))))"

text \<open>\<^verbatim>\<open>obj.key ? formatInput(obj.key) : undefined\<close>\<close>

definition formatField :: "jsobject \<Rightarrow> string \<Rightarrow> error + jsval" where
  "formatField obj k =
     (if truthy (getProp obj k) then inputParam (getProp obj k) None else Inr JUndefined)"

text \<open>The object literal that \<^verbatim>\<open>signTransaction\<close>, \<^verbatim>\<open>sendTransaction\<close>, \<^verbatim>\<open>call\<close> and
  \<^verbatim>\<open>estimateGas\<close> each write out:
  \<^verbatim>\<open>{...transaction, gas: transaction.gas ? formatInput(transaction.gas) : undefined,
  gasPrice: ..., value: ..., nonce: ...}\<close>, its properties evaluated in this order.\<close>

definition transactionParam :: "jsobject \<Rightarrow> error + jsval" where
  "transactionParam transaction =
     bindE (formatField transaction ''gas'') (\<lambda>gas.
     bindE (formatField transaction ''gasPrice'') (\<lambda>gasPrice.
     bindE (formatField transaction ''value'') (\<lambda>value.
     bindE (formatField transaction ''nonce'') (\<lambda>nonce.
       Inr (JObj (AList.update ''nonce'' nonce
                 (AList.update ''value'' value
                 (AList.update ''gasPrice'' gasPrice
                 (AList.update ''gas'' gas transaction)))))))))"

text \<open>The object literal of \<^verbatim>\<open>newFilter\<close> and \<^verbatim>\<open>getLogs\<close>:
  \<^verbatim>\<open>{...filter, fromBlock: filter.fromBlock ? formatInput(filter.fromBlock) : undefined,
  toBlock: filter.toBlock ? formatInput(filter.toBlock) : undefined}\<close>\<close>

definition filterParam :: "jsobject \<Rightarrow> error + jsval" where
  "filterParam filter' =
     bindE (formatField filter' ''fromBlock'') (\<lambda>fromBlock.
     bindE (formatField filter' ''toBlock'') (\<lambda>toBlock.
       Inr (JObj (AList.update ''toBlock'' toBlock
                 (AList.update ''fromBlock'' fromBlock filter')))))"

subsection \<open>The public methods\<close>

text \<open>One definition per method of the class, in the order of the source. A method
  builds \<^verbatim>\<open>requestParameters\<close> (method name, parameter array, call options), and then
  either forwards the reply of the request manager or normalizes the result of the
  response; its \<^verbatim>\<open>catch\<close> block wraps whatever was thrown.\<close>

definition getClientVersion :: "Web3Eth \<Rightarrow> CallOptions option \<Rightarrow> reply effect" where
  "getClientVersion this callOptions =
     tryCatch ''Error getting client version''
       (withParams
          []
          (\<lambda>params.
             sendOrSubscribe this (''web3_clientVersion'', params, callOptions)))"

definition getSha3 :: "Web3Eth \<Rightarrow> string \<Rightarrow> CallOptions option \<Rightarrow> reply effect" where
  "getSha3 this data callOptions =
     tryCatch ''Error getting sha3 hash''
       (withParams
          [Inr (JStr data)]
          (\<lambda>params.
             sendOrSubscribe this (''web3_clientVersion'', params, callOptions)))"

definition getNetworkVersion :: "Web3Eth \<Rightarrow> CallOptions option \<Rightarrow> reply effect" where
  "getNetworkVersion this callOptions =
     tryCatch ''Error getting network version''
       (withParams
          []
          (\<lambda>params.
             sendAndFormat this (''net_version'', params, callOptions)
               (\<lambda>result. formatOutput result (returnTypeOr callOptions (defaultReturnType this)))))"

definition getNetworkListening :: "Web3Eth \<Rightarrow> CallOptions option \<Rightarrow> reply effect" where
  "getNetworkListening this callOptions =
     tryCatch ''Error getting network listening''
       (withParams
          []
          (\<lambda>params.
             sendOrSubscribe this (''net_listening'', params, callOptions)))"

definition getNetworkPeerCount :: "Web3Eth \<Rightarrow> CallOptions option \<Rightarrow> reply effect" where
  "getNetworkPeerCount this callOptions =
     tryCatch ''Error getting network peer count''
       (withParams
          []
          (\<lambda>params.
             sendAndFormat this (''net_peerCount'', params, callOptions)
               (\<lambda>result. formatOutput result (returnTypeOr callOptions (defaultReturnType this)))))"

definition getProtocolVersion :: "Web3Eth \<Rightarrow> CallOptions option \<Rightarrow> reply effect" where
  "getProtocolVersion this callOptions =
     tryCatch ''Error getting protocol version''
       (withParams
          []
          (\<lambda>params.
             sendAndFormat this (''eth_protocolVersion'', params, callOptions)
               (\<lambda>result. formatOutput result (returnTypeOr callOptions (defaultReturnType this)))))"

definition getSyncing :: "Web3Eth \<Rightarrow> CallOptions option \<Rightarrow> reply effect" where
  "getSyncing this callOptions =
     tryCatch ''Error getting syncing status''
       (withParams
          []
          (\<lambda>params.
             sendAndFormat this (''eth_syncing'', params, callOptions)
               (\<lambda>result. formatRpcResultArray result
                [''startingBlock'', ''currentBlock'', ''highestBlock'']
                (defaultReturnType this))))"

definition getCoinbase :: "Web3Eth \<Rightarrow> CallOptions option \<Rightarrow> reply effect" where
  "getCoinbase this callOptions =
     tryCatch ''Error getting coinbase address''
       (withParams
          []
          (\<lambda>params.
             sendOrSubscribe this (''eth_coinbase'', params, callOptions)))"

definition getMining :: "Web3Eth \<Rightarrow> CallOptions option \<Rightarrow> reply effect" where
  "getMining this callOptions =
     tryCatch ''Error getting mining status''
       (withParams
          []
          (\<lambda>params.
             sendOrSubscribe this (''eth_mining'', params, callOptions)))"

definition getHashRate :: "Web3Eth \<Rightarrow> CallOptions option \<Rightarrow> reply effect" where
  "getHashRate this callOptions =
     tryCatch ''Error getting hash rate''
       (withParams
          []
          (\<lambda>params.
             sendAndFormat this (''eth_hashrate'', params, callOptions)
               (\<lambda>result. formatOutput result (returnTypeOr callOptions (defaultReturnType this)))))"

definition getGasPrice :: "Web3Eth \<Rightarrow> CallOptions option \<Rightarrow> reply effect" where
  "getGasPrice this callOptions =
     tryCatch ''Error getting gas price''
       (withParams
          []
          (\<lambda>params.
             sendAndFormat this (''eth_gasPrice'', params, callOptions)
               (\<lambda>result. formatOutput result (returnTypeOr callOptions (defaultReturnType this)))))"

definition getAccounts :: "Web3Eth \<Rightarrow> CallOptions option \<Rightarrow> reply effect" where
  "getAccounts this callOptions =
     tryCatch ''Error getting accounts''
       (withParams
          []
          (\<lambda>params.
             sendOrSubscribe this (''eth_accounts'', params, callOptions)))"

definition getBlockNumber :: "Web3Eth \<Rightarrow> CallOptions option \<Rightarrow> reply effect" where
  "getBlockNumber this callOptions =
     tryCatch ''Error getting block number''
       (withParams
          []
          (\<lambda>params.
             sendAndFormat this (''eth_blockNumber'', params, callOptions)
               (\<lambda>result. formatOutput result (returnTypeOr callOptions (defaultReturnType this)))))"

definition getBalance :: "Web3Eth \<Rightarrow> string \<Rightarrow> jsval \<Rightarrow> CallOptions option \<Rightarrow> reply effect" where
  "getBalance this address blockIdentifier callOptions =
     tryCatch ''Error getting balance''
       (withParams
          [Inr (JStr address),
           (if Web3Eth_isBlockTag blockIdentifier then Inr blockIdentifier else inputParam blockIdentifier None)]
          (\<lambda>params.
             sendAndFormat this (''net_version'', params, callOptions)
               (\<lambda>result. formatOutput result (returnTypeOr callOptions (defaultReturnType this)))))"

definition getStorageAt :: "Web3Eth \<Rightarrow> string \<Rightarrow> jsval \<Rightarrow> jsval \<Rightarrow> CallOptions option \<Rightarrow> reply effect" where
  "getStorageAt this address storagePosition blockIdentifier callOptions =
     tryCatch ''Error getting storage value''
       (withParams
          [Inr (JStr address), inputParam storagePosition None,
           inputParam blockIdentifier None]
          (\<lambda>params.
             sendAndFormat this (''eth_getStorageAt'', params, callOptions)
               (\<lambda>result. formatOutput result (returnTypeOr callOptions (defaultReturnType this)))))"

definition getTransactionCount :: "Web3Eth \<Rightarrow> string \<Rightarrow> jsval \<Rightarrow> CallOptions option \<Rightarrow> reply effect" where
  "getTransactionCount this address blockIdentifier callOptions =
     tryCatch ''Error getting transaction count''
       (withParams
          [Inr (JStr address), inputParam blockIdentifier None]
          (\<lambda>params.
             sendAndFormat this (''eth_getTransactionCount'', params, callOptions)
               (\<lambda>result. formatOutput result (returnTypeOr callOptions (defaultReturnType this)))))"

definition getBlockTransactionCountByHash :: "Web3Eth \<Rightarrow> string \<Rightarrow> CallOptions option \<Rightarrow> reply effect" where
  "getBlockTransactionCountByHash this blockHash callOptions =
     tryCatch ''Error getting transaction count for block by hash''
       (withParams
          [Inr (JStr blockHash)]
          (\<lambda>params.
             sendAndFormat this (''eth_getBlockTransactionCountByHash'', params, callOptions)
               (\<lambda>result. formatOutput result (returnTypeOr callOptions (defaultReturnType this)))))"

definition getBlockTransactionCountByNumber :: "Web3Eth \<Rightarrow> jsval \<Rightarrow> CallOptions option \<Rightarrow> reply effect" where
  "getBlockTransactionCountByNumber this blockIdentifier callOptions =
     tryCatch ''Error getting transaction count for block by number''
       (withParams
          [inputParam blockIdentifier None]
          (\<lambda>params.
             sendAndFormat this (''eth_getBlockTransactionCountByNumber'', params, callOptions)
               (\<lambda>result. formatOutput result (returnTypeOr callOptions (defaultReturnType this)))))"

definition getUncleCountByBlockHash :: "Web3Eth \<Rightarrow> string \<Rightarrow> CallOptions option \<Rightarrow> reply effect" where
  "getUncleCountByBlockHash this blockHash callOptions =
     tryCatch ''Error getting uncle count for block by hash''
       (withParams
          [Inr (JStr blockHash)]
          (\<lambda>params.
             sendAndFormat this (''eth_getUncleCountByBlockHash'', params, callOptions)
               (\<lambda>result. formatOutput result (returnTypeOr callOptions (defaultReturnType this)))))"

definition getUncleCountByBlockNumber :: "Web3Eth \<Rightarrow> jsval \<Rightarrow> CallOptions option \<Rightarrow> reply effect" where
  "getUncleCountByBlockNumber this blockIdentifier callOptions =
     tryCatch ''Error getting uncle count for block by number''
       (withParams
          [inputParam blockIdentifier None]
          (\<lambda>params.
             sendAndFormat this (''eth_getUncleCountByBlockNumber'', params, callOptions)
               (\<lambda>result. formatOutput result (returnTypeOr callOptions (defaultReturnType this)))))"

definition getCode :: "Web3Eth \<Rightarrow> string \<Rightarrow> jsval \<Rightarrow> CallOptions option \<Rightarrow> reply effect" where
  "getCode this address blockIdentifier callOptions =
     tryCatch ''Error getting code at address''
       (withParams
          [Inr (JStr address), inputParam blockIdentifier None]
          (\<lambda>params.
             sendOrSubscribe this (''eth_getCode'', params, callOptions)))"

definition sign :: "Web3Eth \<Rightarrow> string \<Rightarrow> string \<Rightarrow> CallOptions option \<Rightarrow> reply effect" where
  "sign this address message callOptions =
     tryCatch ''Error signing message''
       (withParams
          [Inr (JStr address), Inr (JStr message)]
          (\<lambda>params.
             sendOrSubscribe this (''eth_sign'', params, callOptions)))"

definition signTransaction :: "Web3Eth \<Rightarrow> jsobject \<Rightarrow> CallOptions option \<Rightarrow> reply effect" where
  "signTransaction this transaction callOptions =
     tryCatch ''Error signing transaction''
       (withParams
          [transactionParam transaction]
          (\<lambda>params.
             sendOrSubscribe this (''eth_signTransaction'', params, callOptions)))"

definition sendTransaction :: "Web3Eth \<Rightarrow> jsobject \<Rightarrow> CallOptions option \<Rightarrow> reply effect" where
  "sendTransaction this transaction callOptions =
     tryCatch ''Error sending transaction''
       (withParams
          [transactionParam transaction]
          (\<lambda>params.
             sendOrSubscribe this (''eth_sendTransaction'', params, callOptions)))"

definition sendRawTransaction :: "Web3Eth \<Rightarrow> string \<Rightarrow> CallOptions option \<Rightarrow> reply effect" where
  "sendRawTransaction this rawTransaction callOptions =
     tryCatch ''Error sending raw transaction''
       (withParams
          [Inr (JStr rawTransaction)]
          (\<lambda>params.
             sendOrSubscribe this (''eth_sendRawTransaction'', params, callOptions)))"

definition call :: "Web3Eth \<Rightarrow> jsobject \<Rightarrow> CallOptions option \<Rightarrow> reply effect" where
  "call this transaction callOptions =
     tryCatch ''Error sending call transaction''
       (withParams
          [transactionParam transaction]
          (\<lambda>params.
             sendOrSubscribe this (''eth_call'', params, callOptions)))"

definition estimateGas :: "Web3Eth \<Rightarrow> jsobject \<Rightarrow> CallOptions option \<Rightarrow> reply effect" where
  "estimateGas this transaction callOptions =
     tryCatch ''Error getting gas estimate''
       (withParams
          [transactionParam transaction]
          (\<lambda>params.
             sendAndFormat this (''eth_estimateGas'', params, callOptions)
               (\<lambda>result. formatOutput result (returnTypeOr callOptions (defaultReturnType this)))))"

definition getBlockByHash :: "Web3Eth \<Rightarrow> string \<Rightarrow> bool \<Rightarrow> CallOptions option \<Rightarrow> reply effect" where
  "getBlockByHash this blockHash returnFullTxs callOptions =
     tryCatch ''Error getting block by hash''
       (withParams
          [Inr (JStr blockHash), Inr (JBool returnFullTxs)]
          (\<lambda>params.
             sendAndFormat this (''eth_getBlockByHash'', params, callOptions)
               (\<lambda>result. formatRpcResultArray result
                [''number'', ''nonce'', ''difficulty'', ''totalDifficulty'', ''size'', ''gasLimit'', ''gasUsed'', ''timestamp'']
                (returnTypeOr callOptions (defaultReturnType this)))))"

definition getBlockByNumber :: "Web3Eth \<Rightarrow> jsval \<Rightarrow> bool \<Rightarrow> CallOptions option \<Rightarrow> reply effect" where
  "getBlockByNumber this blockIdentifier returnFullTxs callOptions =
     tryCatch ''Error getting block by number''
       (withParams
          [inputParam blockIdentifier None, Inr (JBool returnFullTxs)]
          (\<lambda>params.
             sendAndFormat this (''eth_getBlockByNumber'', params, callOptions)
               (\<lambda>result. formatRpcResultArray result
                [''number'', ''nonce'', ''difficulty'', ''totalDifficulty'', ''size'', ''gasLimit'', ''gasUsed'', ''timestamp'']
                (returnTypeOr callOptions (defaultReturnType this)))))"

definition getTransactionByHash :: "Web3Eth \<Rightarrow> string \<Rightarrow> CallOptions option \<Rightarrow> reply effect" where
  "getTransactionByHash this txHash callOptions =
     tryCatch ''Error getting transaction by hash''
       (withParams
          [Inr (JStr txHash)]
          (\<lambda>params.
             sendAndFormat this (''eth_getTransactionByHash'', params, callOptions)
               (\<lambda>result. formatRpcResultArray result
                [''blockNumber'', ''gas'', ''gasPrice'', ''nonce'', ''transactionIndex'', ''value'', ''v'']
                (returnTypeOr callOptions (defaultReturnType this)))))"

definition getTransactionByBlockHashAndIndex :: "Web3Eth \<Rightarrow> string \<Rightarrow> jsval \<Rightarrow> CallOptions option \<Rightarrow> reply effect" where
  "getTransactionByBlockHashAndIndex this blockHash transactionIndex callOptions =
     tryCatch ''Error getting transaction by block hash and index''
       (withParams
          [Inr (JStr blockHash), inputParam transactionIndex None]
          (\<lambda>params.
             sendAndFormat this (''eth_getTransactionByBlockHashAndIndex'', params, callOptions)
               (\<lambda>result. formatRpcResultArray result
                [''blockNumber'', ''gas'', ''gasPrice'', ''nonce'', ''transactionIndex'', ''value'', ''v'']
                (returnTypeOr callOptions (defaultReturnType this)))))"

definition getTransactionByBlockNumberAndIndex :: "Web3Eth \<Rightarrow> jsval \<Rightarrow> jsval \<Rightarrow> CallOptions option \<Rightarrow> reply effect" where
  "getTransactionByBlockNumberAndIndex this blockIdentifier transactionIndex callOptions =
     tryCatch ''Error getting transaction by block number and index''
       (withParams
          [inputParam blockIdentifier None, inputParam transactionIndex None]
          (\<lambda>params.
             sendAndFormat this (''eth_getTransactionByBlockNumberAndIndex'', params, callOptions)
               (\<lambda>result. formatRpcResultArray result
                [''blockNumber'', ''gas'', ''gasPrice'', ''nonce'', ''transactionIndex'', ''value'', ''v'']
                (returnTypeOr callOptions (defaultReturnType this)))))"

definition getTransactionReceipt :: "Web3Eth \<Rightarrow> string \<Rightarrow> CallOptions option \<Rightarrow> reply effect" where
  "getTransactionReceipt this txHash callOptions =
     tryCatch ''Error getting transaction reciept''
       (withParams
          [Inr (JStr txHash)]
          (\<lambda>params.
             sendAndFormat this (''eth_getTransactionReceipt'', params, callOptions)
               (\<lambda>result. formatRpcResultArray result
                [''blockNumber'', ''cumulativeGasUsed'', ''gasUsed'']
                (returnTypeOr callOptions (defaultReturnType this)))))"

definition getUncleByBlockHashAndIndex :: "Web3Eth \<Rightarrow> string \<Rightarrow> jsval \<Rightarrow> CallOptions option \<Rightarrow> reply effect" where
  "getUncleByBlockHashAndIndex this blockHash uncleIndex callOptions =
     tryCatch ''Error getting uncle by block hash and index''
       (withParams
          [Inr (JStr blockHash), inputParam uncleIndex None]
          (\<lambda>params.
             sendAndFormat this (''eth_getUncleByBlockHashAndIndex'', params, callOptions)
               (\<lambda>result. formatRpcResultArray result
                [''number'', ''nonce'', ''difficulty'', ''totalDifficulty'', ''size'', ''gasLimit'', ''gasUsed'', ''timestamp'']
                (returnTypeOr callOptions (defaultReturnType this)))))"

definition getUncleByBlockNumberAndIndex :: "Web3Eth \<Rightarrow> jsval \<Rightarrow> jsval \<Rightarrow> CallOptions option \<Rightarrow> reply effect" where
  "getUncleByBlockNumberAndIndex this blockIdentifier uncleIndex callOptions =
     tryCatch ''Error getting uncle by block number and index''
       (withParams
          [inputParam blockIdentifier None, inputParam uncleIndex None]
          (\<lambda>params.
             sendAndFormat this (''eth_getUncleByBlockNumberAndIndex'', params, callOptions)
               (\<lambda>result. formatRpcResultArray result
                [''number'', ''nonce'', ''difficulty'', ''totalDifficulty'', ''size'', ''gasLimit'', ''gasUsed'', ''timestamp'']
                (returnTypeOr callOptions (defaultReturnType this)))))"

definition getCompilers :: "Web3Eth \<Rightarrow> CallOptions option \<Rightarrow> reply effect" where
  "getCompilers this callOptions =
     tryCatch ''Error getting compilers''
       (withParams
          []
          (\<lambda>params.
             sendOrSubscribe this (''eth_getCompilers'', params, callOptions)))"

definition compileSolidity :: "Web3Eth \<Rightarrow> string \<Rightarrow> CallOptions option \<Rightarrow> reply effect" where
  "compileSolidity this sourceCode callOptions =
     tryCatch ''Error getting compiling solidity code''
       (withParams
          [Inr (JStr sourceCode)]
          (\<lambda>params.
             sendOrSubscribe this (''eth_compileSolidity'', params, callOptions)))"

definition compileLLL :: "Web3Eth \<Rightarrow> string \<Rightarrow> CallOptions option \<Rightarrow> reply effect" where
  "compileLLL this sourceCode callOptions =
     tryCatch ''Error getting compiling LLL code''
       (withParams
          [Inr (JStr sourceCode)]
          (\<lambda>params.
             sendOrSubscribe this (''eth_compileLLL'', params, callOptions)))"

definition compileSerpent :: "Web3Eth \<Rightarrow> string \<Rightarrow> CallOptions option \<Rightarrow> reply effect" where
  "compileSerpent this sourceCode callOptions =
     tryCatch ''Error getting compiling serpent code''
       (withParams
          [Inr (JStr sourceCode)]
          (\<lambda>params.
             sendOrSubscribe this (''eth_compileSerpent'', params, callOptions)))"

definition newFilter :: "Web3Eth \<Rightarrow> jsobject \<Rightarrow> CallOptions option \<Rightarrow> reply effect" where
  "newFilter this filter' callOptions =
     tryCatch ''Error creating filter''
       (withParams
          [filterParam filter']
          (\<lambda>params.
             sendAndFormat this (''eth_newFilter'', params, callOptions)
               (\<lambda>result. formatOutput result (returnTypeOr callOptions (defaultReturnType this)))))"

definition newBlockFilter :: "Web3Eth \<Rightarrow> CallOptions option \<Rightarrow> reply effect" where
  "newBlockFilter this callOptions =
     tryCatch ''Error creating block filter''
       (withParams
          []
          (\<lambda>params.
             sendAndFormat this (''eth_newBlockFilter'', params, callOptions)
               (\<lambda>result. formatOutput result (returnTypeOr callOptions (defaultReturnType this)))))"

definition newPendingTransactionFilter :: "Web3Eth \<Rightarrow> CallOptions option \<Rightarrow> reply effect" where
  "newPendingTransactionFilter this callOptions =
     tryCatch ''Error creating pending transaction filter''
       (withParams
          []
          (\<lambda>params.
             sendAndFormat this (''eth_newPendingTransactionFilter'', params, callOptions)
               (\<lambda>result. formatOutput result (returnTypeOr callOptions (defaultReturnType this)))))"

definition uninstallFilter :: "Web3Eth \<Rightarrow> jsval \<Rightarrow> CallOptions option \<Rightarrow> reply effect" where
  "uninstallFilter this filterId callOptions =
     tryCatch ''Error uninstalling filter''
       (withParams
          [inputParam filterId None]
          (\<lambda>params.
             sendOrSubscribe this (''eth_uninstallFilter'', params, callOptions)))"

definition getFilterChanges :: "Web3Eth \<Rightarrow> jsval \<Rightarrow> CallOptions option \<Rightarrow> reply effect" where
  "getFilterChanges this filterId callOptions =
     tryCatch ''Error getting filter changes''
       (withParams
          [inputParam filterId None]
          (\<lambda>params.
             sendAndFormat this (''eth_getFilterChanges'', params, callOptions)
               (\<lambda>result. formatRpcResultArray result
                [''logIndex'', ''transactionIndex'', ''blockNumber'']
                (returnTypeOr callOptions (defaultReturnType this)))))"

definition getFilterLogs :: "Web3Eth \<Rightarrow> jsval \<Rightarrow> CallOptions option \<Rightarrow> reply effect" where
  "getFilterLogs this filterId callOptions =
     tryCatch ''Error getting filter changes''
       (withParams
          [inputParam filterId None]
          (\<lambda>params.
             sendAndFormat this (''eth_getFilterLogs'', params, callOptions)
               (\<lambda>result. formatRpcResultArray result
                [''logIndex'', ''transactionIndex'', ''blockNumber'']
                (returnTypeOr callOptions (defaultReturnType this)))))"

definition getLogs :: "Web3Eth \<Rightarrow> jsobject \<Rightarrow> CallOptions option \<Rightarrow> reply effect" where
  "getLogs this filter' callOptions =
     tryCatch ''Error getting logs''
       (withParams
          [filterParam filter']
          (\<lambda>params.
             sendAndFormat this (''eth_getLogs'', params, callOptions)
               (\<lambda>result. formatRpcResultArray result
                [''logIndex'', ''transactionIndex'', ''blockNumber'']
                (returnTypeOr callOptions (defaultReturnType this)))))"

definition getWork :: "Web3Eth \<Rightarrow> CallOptions option \<Rightarrow> reply effect" where
  "getWork this callOptions =
     tryCatch ''Error getting work''
       (withParams
          []
          (\<lambda>params.
             sendOrSubscribe this (''eth_getWork'', params, callOptions)))"

definition submitWork :: "Web3Eth \<Rightarrow> jsval \<Rightarrow> string \<Rightarrow> string \<Rightarrow> CallOptions option \<Rightarrow> reply effect" where
  "submitWork this nonce powHash digest callOptions =
     tryCatch ''Error submitting work''
       (withParams
          [inputParam nonce None, Inr (JStr powHash), Inr (JStr digest)]
          (\<lambda>params.
             sendOrSubscribe this (''eth_submitWork'', params, callOptions)))"

definition submitHashRate :: "Web3Eth \<Rightarrow> jsval \<Rightarrow> jsval \<Rightarrow> CallOptions option \<Rightarrow> reply effect" where
  "submitHashRate this hashRate clientId callOptions =
     tryCatch ''Error submitting hash rate''
       (withParams
          [inputParam hashRate (Some 32), inputParam clientId None]
          (\<lambda>params.
             sendOrSubscribe this (''eth_submitHashRate'', params, callOptions)))"

subsection \<open>The public interface as one type\<close>

text \<open>A call of a public method with its arguments, so that a property of every
  public operation is a property of \<open>invoke\<close>.\<close>

datatype operation =
    GetClientVersion
  | GetSha3 string
  | GetNetworkVersion
  | GetNetworkListening
  | GetNetworkPeerCount
  | GetProtocolVersion
  | GetSyncing
  | GetCoinbase
  | GetMining
  | GetHashRate
  | GetGasPrice
  | GetAccounts
  | GetBlockNumber
  | GetBalance string jsval
  | GetStorageAt string jsval jsval
  | GetTransactionCount string jsval
  | GetBlockTransactionCountByHash string
  | GetBlockTransactionCountByNumber jsval
  | GetUncleCountByBlockHash string
  | GetUncleCountByBlockNumber jsval
  | GetCode string jsval
  | Sign string string
  | SignTransaction jsobject
  | SendTransaction jsobject
  | SendRawTransaction string
  | Call jsobject
  | EstimateGas jsobject
  | GetBlockByHash string bool
  | GetBlockByNumber jsval bool
  | GetTransactionByHash string
  | GetTransactionByBlockHashAndIndex string jsval
  | GetTransactionByBlockNumberAndIndex jsval jsval
  | GetTransactionReceipt string
  | GetUncleByBlockHashAndIndex string jsval
  | GetUncleByBlockNumberAndIndex jsval jsval
  | GetCompilers
  | CompileSolidity string
  | CompileLLL string
  | CompileSerpent string
  | NewFilter jsobject
  | NewBlockFilter
  | NewPendingTransactionFilter
  | UninstallFilter jsval
  | GetFilterChanges jsval
  | GetFilterLogs jsval
  | GetLogs jsobject
  | GetWork
  | SubmitWork jsval string string
  | SubmitHashRate jsval jsval

primrec invoke :: "Web3Eth \<Rightarrow> operation \<Rightarrow> CallOptions option \<Rightarrow> reply effect" where
  "invoke this GetClientVersion callOptions =
     getClientVersion this callOptions"
| "invoke this (GetSha3 data) callOptions =
     getSha3 this data callOptions"
| "invoke this GetNetworkVersion callOptions =
     getNetworkVersion this callOptions"
| "invoke this GetNetworkListening callOptions =
     getNetworkListening this callOptions"
| "invoke this GetNetworkPeerCount callOptions =
     getNetworkPeerCount this callOptions"
| "invoke this GetProtocolVersion callOptions =
     getProtocolVersion this callOptions"
| "invoke this GetSyncing callOptions =
     getSyncing this callOptions"
| "invoke this GetCoinbase callOptions =
     getCoinbase this callOptions"
| "invoke this GetMining callOptions =
     getMining this callOptions"
| "invoke this GetHashRate callOptions =
     getHashRate this callOptions"
| "invoke this GetGasPrice callOptions =
     getGasPrice this callOptions"
| "invoke this GetAccounts callOptions =
     getAccounts this callOptions"
| "invoke this GetBlockNumber callOptions =
     getBlockNumber this callOptions"
| "invoke this (GetBalance address blockIdentifier) callOptions =
     getBalance this address blockIdentifier callOptions"
| "invoke this (GetStorageAt address storagePosition blockIdentifier) callOptions =
     getStorageAt this address storagePosition blockIdentifier callOptions"
| "invoke this (GetTransactionCount address blockIdentifier) callOptions =
     getTransactionCount this address blockIdentifier callOptions"
| "invoke this (GetBlockTransactionCountByHash blockHash) callOptions =
     getBlockTransactionCountByHash this blockHash callOptions"
| "invoke this (GetBlockTransactionCountByNumber blockIdentifier) callOptions =
     getBlockTransactionCountByNumber this blockIdentifier callOptions"
| "invoke this (GetUncleCountByBlockHash blockHash) callOptions =
     getUncleCountByBlockHash this blockHash callOptions"
| "invoke this (GetUncleCountByBlockNumber blockIdentifier) callOptions =
     getUncleCountByBlockNumber this blockIdentifier callOptions"
| "invoke this (GetCode address blockIdentifier) callOptions =
     getCode this address blockIdentifier callOptions"
| "invoke this (Sign address message) callOptions =
     sign this address message callOptions"
| "invoke this (SignTransaction transaction) callOptions =
     signTransaction this transaction callOptions"
| "invoke this (SendTransaction transaction) callOptions =
     sendTransaction this transaction callOptions"
| "invoke this (SendRawTransaction rawTransaction) callOptions =
     sendRawTransaction this rawTransaction callOptions"
| "invoke this (Call transaction) callOptions =
     call this transaction callOptions"
| "invoke this (EstimateGas transaction) callOptions =
     estimateGas this transaction callOptions"
| "invoke this (GetBlockByHash blockHash returnFullTxs) callOptions =
     getBlockByHash this blockHash returnFullTxs callOptions"
| "invoke this (GetBlockByNumber blockIdentifier returnFullTxs) callOptions =
     getBlockByNumber this blockIdentifier returnFullTxs callOptions"
| "invoke this (GetTransactionByHash txHash) callOptions =
     getTransactionByHash this txHash callOptions"
| "invoke this (GetTransactionByBlockHashAndIndex blockHash transactionIndex) callOptions =
     getTransactionByBlockHashAndIndex this blockHash transactionIndex callOptions"
| "invoke this (GetTransactionByBlockNumberAndIndex blockIdentifier transactionIndex) callOptions =
     getTransactionByBlockNumberAndIndex this blockIdentifier transactionIndex callOptions"
| "invoke this (GetTransactionReceipt txHash) callOptions =
     getTransactionReceipt this txHash callOptions"
| "invoke this (GetUncleByBlockHashAndIndex blockHash uncleIndex) callOptions =
     getUncleByBlockHashAndIndex this blockHash uncleIndex callOptions"
| "invoke this (GetUncleByBlockNumberAndIndex blockIdentifier uncleIndex) callOptions =
     getUncleByBlockNumberAndIndex this blockIdentifier uncleIndex callOptions"
| "invoke this GetCompilers callOptions =
     getCompilers this callOptions"
| "invoke this (CompileSolidity sourceCode) callOptions =
     compileSolidity this sourceCode callOptions"
| "invoke this (CompileLLL sourceCode) callOptions =
     compileLLL this sourceCode callOptions"
| "invoke this (CompileSerpent sourceCode) callOptions =
     compileSerpent this sourceCode callOptions"
| "invoke this (NewFilter filter') callOptions =
     newFilter this filter' callOptions"
| "invoke this NewBlockFilter callOptions =
     newBlockFilter this callOptions"
| "invoke this NewPendingTransactionFilter callOptions =
     newPendingTransactionFilter this callOptions"
| "invoke this (UninstallFilter filterId) callOptions =
     uninstallFilter this filterId callOptions"
| "invoke this (GetFilterChanges filterId) callOptions =
     getFilterChanges this filterId callOptions"
| "invoke this (GetFilterLogs filterId) callOptions =
     getFilterLogs this filterId callOptions"
| "invoke this (GetLogs filter') callOptions =
     getLogs this filter' callOptions"
| "invoke this GetWork callOptions =
     getWork this callOptions"
| "invoke this (SubmitWork nonce powHash digest) callOptions =
     submitWork this nonce powHash digest callOptions"
| "invoke this (SubmitHashRate hashRate clientId) callOptions =
     submitHashRate this hashRate clientId callOptions"

text \<open>The parameter array each method builds, element by element: an argument passed as
  it is, or the conversion of an argument, which may fail.\<close>

primrec parameters :: "operation \<Rightarrow> (error + jsval) list" where
  "parameters GetClientVersion =
     []"
| "parameters (GetSha3 data) =
     [Inr (JStr data)]"
| "parameters GetNetworkVersion =
     []"
| "parameters GetNetworkListening =
     []"
| "parameters GetNetworkPeerCount =
     []"
| "parameters GetProtocolVersion =
     []"
| "parameters GetSyncing =
     []"
| "parameters GetCoinbase =
     []"
| "parameters GetMining =
     []"
| "parameters GetHashRate =
     []"
| "parameters GetGasPrice =
     []"
| "parameters GetAccounts =
     []"
| "parameters GetBlockNumber =
     []"
| "parameters (GetBalance address blockIdentifier) =
     [Inr (JStr address),
      (if Web3Eth_isBlockTag blockIdentifier then Inr blockIdentifier else inputParam blockIdentifier None)]"
| "parameters (GetStorageAt address storagePosition blockIdentifier) =
     [Inr (JStr address), inputParam storagePosition None, inputParam blockIdentifier None]"
| "parameters (GetTransactionCount address blockIdentifier) =
     [Inr (JStr address), inputParam blockIdentifier None]"
| "parameters (GetBlockTransactionCountByHash blockHash) =
     [Inr (JStr blockHash)]"
| "parameters (GetBlockTransactionCountByNumber blockIdentifier) =
     [inputParam blockIdentifier None]"
| "parameters (GetUncleCountByBlockHash blockHash) =
     [Inr (JStr blockHash)]"
| "parameters (GetUncleCountByBlockNumber blockIdentifier) =
     [inputParam blockIdentifier None]"
| "parameters (GetCode address blockIdentifier) =
     [Inr (JStr address), inputParam blockIdentifier None]"
| "parameters (Sign address message) =
     [Inr (JStr address), Inr (JStr message)]"
| "parameters (SignTransaction transaction) =
     [transactionParam transaction]"
| "parameters (SendTransaction transaction) =
     [transactionParam transaction]"
| "parameters (SendRawTransaction rawTransaction) =
     [Inr (JStr rawTransaction)]"
| "parameters (Call transaction) =
     [transactionParam transaction]"
| "parameters (EstimateGas transaction) =
     [transactionParam transaction]"
| "parameters (GetBlockByHash blockHash returnFullTxs) =
     [Inr (JStr blockHash), Inr (JBool returnFullTxs)]"
| "parameters (GetBlockByNumber blockIdentifier returnFullTxs) =
     [inputParam blockIdentifier None, Inr (JBool returnFullTxs)]"
| "parameters (GetTransactionByHash txHash) =
     [Inr (JStr txHash)]"
| "parameters (GetTransactionByBlockHashAndIndex blockHash transactionIndex) =
     [Inr (JStr blockHash), inputParam transactionIndex None]"
| "parameters (GetTransactionByBlockNumberAndIndex blockIdentifier transactionIndex) =
     [inputParam blockIdentifier None, inputParam transactionIndex None]"
| "parameters (GetTransactionReceipt txHash) =
     [Inr (JStr txHash)]"
| "parameters (GetUncleByBlockHashAndIndex blockHash uncleIndex) =
     [Inr (JStr blockHash), inputParam uncleIndex None]"
| "parameters (GetUncleByBlockNumberAndIndex blockIdentifier uncleIndex) =
     [inputParam blockIdentifier None, inputParam uncleIndex None]"
| "parameters GetCompilers =
     []"
| "parameters (CompileSolidity sourceCode) =
     [Inr (JStr sourceCode)]"
| "parameters (CompileLLL sourceCode) =
     [Inr (JStr sourceCode)]"
| "parameters (CompileSerpent sourceCode) =
     [Inr (JStr sourceCode)]"
| "parameters (NewFilter filter') =
     [filterParam filter']"
| "parameters NewBlockFilter =
     []"
| "parameters NewPendingTransactionFilter =
     []"
| "parameters (UninstallFilter filterId) =
     [inputParam filterId None]"
| "parameters (GetFilterChanges filterId) =
     [inputParam filterId None]"
| "parameters (GetFilterLogs filterId) =
     [inputParam filterId None]"
| "parameters (GetLogs filter') =
     [filterParam filter']"
| "parameters GetWork =
     []"
| "parameters (SubmitWork nonce powHash digest) =
     [inputParam nonce None, Inr (JStr powHash), Inr (JStr digest)]"
| "parameters (SubmitHashRate hashRate clientId) =
     [inputParam hashRate (Some 32), inputParam clientId None]"

text \<open>The method name each method puts in its request.\<close>

primrec methodName :: "operation \<Rightarrow> string" where
  "methodName GetClientVersion = ''web3_clientVersion''"
| "methodName (GetSha3 data) = ''web3_clientVersion''"
| "methodName GetNetworkVersion = ''net_version''"
| "methodName GetNetworkListening = ''net_listening''"
| "methodName GetNetworkPeerCount = ''net_peerCount''"
| "methodName GetProtocolVersion = ''eth_protocolVersion''"
| "methodName GetSyncing = ''eth_syncing''"
| "methodName GetCoinbase = ''eth_coinbase''"
| "methodName GetMining = ''eth_mining''"
| "methodName GetHashRate = ''eth_hashrate''"
| "methodName GetGasPrice = ''eth_gasPrice''"
| "methodName GetAccounts = ''eth_accounts''"
| "methodName GetBlockNumber = ''eth_blockNumber''"
| "methodName (GetBalance address blockIdentifier) = ''net_version''"
| "methodName (GetStorageAt address storagePosition blockIdentifier) = ''eth_getStorageAt''"
| "methodName (GetTransactionCount address blockIdentifier) = ''eth_getTransactionCount''"
| "methodName (GetBlockTransactionCountByHash blockHash) = ''eth_getBlockTransactionCountByHash''"
| "methodName (GetBlockTransactionCountByNumber blockIdentifier) = ''eth_getBlockTransactionCountByNumber''"
| "methodName (GetUncleCountByBlockHash blockHash) = ''eth_getUncleCountByBlockHash''"
| "methodName (GetUncleCountByBlockNumber blockIdentifier) = ''eth_getUncleCountByBlockNumber''"
| "methodName (GetCode address blockIdentifier) = ''eth_getCode''"
| "methodName (Sign address message) = ''eth_sign''"
| "methodName (SignTransaction transaction) = ''eth_signTransaction''"
| "methodName (SendTransaction transaction) = ''eth_sendTransaction''"
| "methodName (SendRawTransaction rawTransaction) = ''eth_sendRawTransaction''"
| "methodName (Call transaction) = ''eth_call''"
| "methodName (EstimateGas transaction) = ''eth_estimateGas''"
| "methodName (GetBlockByHash blockHash returnFullTxs) = ''eth_getBlockByHash''"
| "methodName (GetBlockByNumber blockIdentifier returnFullTxs) = ''eth_getBlockByNumber''"
| "methodName (GetTransactionByHash txHash) = ''eth_getTransactionByHash''"
| "methodName (GetTransactionByBlockHashAndIndex blockHash transactionIndex) = ''eth_getTransactionByBlockHashAndIndex''"
| "methodName (GetTransactionByBlockNumberAndIndex blockIdentifier transactionIndex) = ''eth_getTransactionByBlockNumberAndIndex''"
| "methodName (GetTransactionReceipt txHash) = ''eth_getTransactionReceipt''"
| "methodName (GetUncleByBlockHashAndIndex blockHash uncleIndex) = ''eth_getUncleByBlockHashAndIndex''"
| "methodName (GetUncleByBlockNumberAndIndex blockIdentifier uncleIndex) = ''eth_getUncleByBlockNumberAndIndex''"
| "methodName GetCompilers = ''eth_getCompilers''"
| "methodName (CompileSolidity sourceCode) = ''eth_compileSolidity''"
| "methodName (CompileLLL sourceCode) = ''eth_compileLLL''"
| "methodName (CompileSerpent sourceCode) = ''eth_compileSerpent''"
| "methodName (NewFilter filter') = ''eth_newFilter''"
| "methodName NewBlockFilter = ''eth_newBlockFilter''"
| "methodName NewPendingTransactionFilter = ''eth_newPendingTransactionFilter''"
| "methodName (UninstallFilter filterId) = ''eth_uninstallFilter''"
| "methodName (GetFilterChanges filterId) = ''eth_getFilterChanges''"
| "methodName (GetFilterLogs filterId) = ''eth_getFilterLogs''"
| "methodName (GetLogs filter') = ''eth_getLogs''"
| "methodName GetWork = ''eth_getWork''"
| "methodName (SubmitWork nonce powHash digest) = ''eth_submitWork''"
| "methodName (SubmitHashRate hashRate clientId) = ''eth_submitHashRate''"

text \<open>The context message of each method's \<^verbatim>\<open>catch\<close> block.\<close>

primrec contextMessage :: "operation \<Rightarrow> string" where
  "contextMessage GetClientVersion = ''Error getting client version''"
| "contextMessage (GetSha3 data) = ''Error getting sha3 hash''"
| "contextMessage GetNetworkVersion = ''Error getting network version''"
| "contextMessage GetNetworkListening = ''Error getting network listening''"
| "contextMessage GetNetworkPeerCount = ''Error getting network peer count''"
| "contextMessage GetProtocolVersion = ''Error getting protocol version''"
| "contextMessage GetSyncing = ''Error getting syncing status''"
| "contextMessage GetCoinbase = ''Error getting coinbase address''"
| "contextMessage GetMining = ''Error getting mining status''"
| "contextMessage GetHashRate = ''Error getting hash rate''"
| "contextMessage GetGasPrice = ''Error getting gas price''"
| "contextMessage GetAccounts = ''Error getting accounts''"
| "contextMessage GetBlockNumber = ''Error getting block number''"
| "contextMessage (GetBalance address blockIdentifier) = ''Error getting balance''"
| "contextMessage (GetStorageAt address storagePosition blockIdentifier) = ''Error getting storage value''"
| "contextMessage (GetTransactionCount address blockIdentifier) = ''Error getting transaction count''"
| "contextMessage (GetBlockTransactionCountByHash blockHash) = ''Error getting transaction count for block by hash''"
| "contextMessage (GetBlockTransactionCountByNumber blockIdentifier) = ''Error getting transaction count for block by number''"
| "contextMessage (GetUncleCountByBlockHash blockHash) = ''Error getting uncle count for block by hash''"
| "contextMessage (GetUncleCountByBlockNumber blockIdentifier) = ''Error getting uncle count for block by number''"
| "contextMessage (GetCode address blockIdentifier) = ''Error getting code at address''"
| "contextMessage (Sign address message) = ''Error signing message''"
| "contextMessage (SignTransaction transaction) = ''Error signing transaction''"
| "contextMessage (SendTransaction transaction) = ''Error sending transaction''"
| "contextMessage (SendRawTransaction rawTransaction) = ''Error sending raw transaction''"
| "contextMessage (Call transaction) = ''Error sending call transaction''"
| "contextMessage (EstimateGas transaction) = ''Error getting gas estimate''"
| "contextMessage (GetBlockByHash blockHash returnFullTxs) = ''Error getting block by hash''"
| "contextMessage (GetBlockByNumber blockIdentifier returnFullTxs) = ''Error getting block by number''"
| "contextMessage (GetTransactionByHash txHash) = ''Error getting transaction by hash''"
| "contextMessage (GetTransactionByBlockHashAndIndex blockHash transactionIndex) = ''Error getting transaction by block hash and index''"
| "contextMessage (GetTransactionByBlockNumberAndIndex blockIdentifier transactionIndex) = ''Error getting transaction by block number and index''"
| "contextMessage (GetTransactionReceipt txHash) = ''Error getting transaction reciept''"
| "contextMessage (GetUncleByBlockHashAndIndex blockHash uncleIndex) = ''Error getting uncle by block hash and index''"
| "contextMessage (GetUncleByBlockNumberAndIndex blockIdentifier uncleIndex) = ''Error getting uncle by block number and index''"
| "contextMessage GetCompilers = ''Error getting compilers''"
| "contextMessage (CompileSolidity sourceCode) = ''Error getting compiling solidity code''"
| "contextMessage (CompileLLL sourceCode) = ''Error getting compiling LLL code''"
| "contextMessage (CompileSerpent sourceCode) = ''Error getting compiling serpent code''"
| "contextMessage (NewFilter filter') = ''Error creating filter''"
| "contextMessage NewBlockFilter = ''Error creating block filter''"
| "contextMessage NewPendingTransactionFilter = ''Error creating pending transaction filter''"
| "contextMessage (UninstallFilter filterId) = ''Error uninstalling filter''"
| "contextMessage (GetFilterChanges filterId) = ''Error getting filter changes''"
| "contextMessage (GetFilterLogs filterId) = ''Error getting filter changes''"
| "contextMessage (GetLogs filter') = ''Error getting logs''"
| "contextMessage GetWork = ''Error getting work''"
| "contextMessage (SubmitWork nonce powHash digest) = ''Error submitting work''"
| "contextMessage (SubmitHashRate hashRate clientId) = ''Error submitting hash rate''"

text \<open>What each method does to the result of a response: \<open>None\<close> for a method that
  returns the response as received, otherwise the normalization it applies.\<close>

primrec resultFormat ::
  "Web3Eth \<Rightarrow> CallOptions option \<Rightarrow> operation \<Rightarrow> (jsval \<Rightarrow> error + jsval) option" where
  "resultFormat this callOptions GetClientVersion = None"
| "resultFormat this callOptions (GetSha3 data) = None"
| "resultFormat this callOptions GetNetworkVersion =
     Some (\<lambda>result. formatOutput result (returnTypeOr callOptions (defaultReturnType this)))"
| "resultFormat this callOptions GetNetworkListening = None"
| "resultFormat this callOptions GetNetworkPeerCount =
     Some (\<lambda>result. formatOutput result (returnTypeOr callOptions (defaultReturnType this)))"
| "resultFormat this callOptions GetProtocolVersion =
     Some (\<lambda>result. formatOutput result (returnTypeOr callOptions (defaultReturnType this)))"
| "resultFormat this callOptions GetSyncing =
     Some (\<lambda>result. formatRpcResultArray result
                [''startingBlock'', ''currentBlock'', ''highestBlock'']
                (defaultReturnType this))"
| "resultFormat this callOptions GetCoinbase = None"
| "resultFormat this callOptions GetMining = None"
| "resultFormat this callOptions GetHashRate =
     Some (\<lambda>result. formatOutput result (returnTypeOr callOptions (defaultReturnType this)))"
| "resultFormat this callOptions GetGasPrice =
     Some (\<lambda>result. formatOutput result (returnTypeOr callOptions (defaultReturnType this)))"
| "resultFormat this callOptions GetAccounts = None"
| "resultFormat this callOptions GetBlockNumber =
     Some (\<lambda>result. formatOutput result (returnTypeOr callOptions (defaultReturnType this)))"
| "resultFormat this callOptions (GetBalance address blockIdentifier) =
     Some (\<lambda>result. formatOutput result (returnTypeOr callOptions (defaultReturnType this)))"
| "resultFormat this callOptions (GetStorageAt address storagePosition blockIdentifier) =
     Some (\<lambda>result. formatOutput result (returnTypeOr callOptions (defaultReturnType this)))"
| "resultFormat this callOptions (GetTransactionCount address blockIdentifier) =
     Some (\<lambda>result. formatOutput result (returnTypeOr callOptions (defaultReturnType this)))"
| "resultFormat this callOptions (GetBlockTransactionCountByHash blockHash) =
     Some (\<lambda>result. formatOutput result (returnTypeOr callOptions (defaultReturnType this)))"
| "resultFormat this callOptions (GetBlockTransactionCountByNumber blockIdentifier) =
     Some (\<lambda>result. formatOutput result (returnTypeOr callOptions (defaultReturnType this)))"
| "resultFormat this callOptions (GetUncleCountByBlockHash blockHash) =
     Some (\<lambda>result. formatOutput result (returnTypeOr callOptions (defaultReturnType this)))"
| "resultFormat this callOptions (GetUncleCountByBlockNumber blockIdentifier) =
     Some (\<lambda>result. formatOutput result (returnTypeOr callOptions (defaultReturnType this)))"
| "resultFormat this callOptions (GetCode address blockIdentifier) = None"
| "resultFormat this callOptions (Sign address message) = None"
| "resultFormat this callOptions (SignTransaction transaction) = None"
| "resultFormat this callOptions (SendTransaction transaction) = None"
| "resultFormat this callOptions (SendRawTransaction rawTransaction) = None"
| "resultFormat this callOptions (Call transaction) = None"
| "resultFormat this callOptions (EstimateGas transaction) =
     Some (\<lambda>result. formatOutput result (returnTypeOr callOptions (defaultReturnType this)))"
| "resultFormat this callOptions (GetBlockByHash blockHash returnFullTxs) =
     Some (\<lambda>result. formatRpcResultArray result
                [''number'', ''nonce'', ''difficulty'', ''totalDifficulty'', ''size'', ''gasLimit'', ''gasUsed'', ''timestamp'']
                (returnTypeOr callOptions (defaultReturnType this)))"
| "resultFormat this callOptions (GetBlockByNumber blockIdentifier returnFullTxs) =
     Some (\<lambda>result. formatRpcResultArray result
                [''number'', ''nonce'', ''difficulty'', ''totalDifficulty'', ''size'', ''gasLimit'', ''gasUsed'', ''timestamp'']
                (returnTypeOr callOptions (defaultReturnType this)))"
| "resultFormat this callOptions (GetTransactionByHash txHash) =
     Some (\<lambda>result. formatRpcResultArray result
                [''blockNumber'', ''gas'', ''gasPrice'', ''nonce'', ''transactionIndex'', ''value'', ''v'']
                (returnTypeOr callOptions (defaultReturnType this)))"
| "resultFormat this callOptions (GetTransactionByBlockHashAndIndex blockHash transactionIndex) =
     Some (\<lambda>result. formatRpcResultArray result
                [''blockNumber'', ''gas'', ''gasPrice'', ''nonce'', ''transactionIndex'', ''value'', ''v'']
                (returnTypeOr callOptions (defaultReturnType this)))"
| "resultFormat this callOptions (GetTransactionByBlockNumberAndIndex blockIdentifier transactionIndex) =
     Some (\<lambda>result. formatRpcResultArray result
                [''blockNumber'', ''gas'', ''gasPrice'', ''nonce'', ''transactionIndex'', ''value'', ''v'']
                (returnTypeOr callOptions (defaultReturnType this)))"
| "resultFormat this callOptions (GetTransactionReceipt txHash) =
     Some (\<lambda>result. formatRpcResultArray result
                [''blockNumber'', ''cumulativeGasUsed'', ''gasUsed'']
                (returnTypeOr callOptions (defaultReturnType this)))"
| "resultFormat this callOptions (GetUncleByBlockHashAndIndex blockHash uncleIndex) =
     Some (\<lambda>result. formatRpcResultArray result
                [''number'', ''nonce'', ''difficulty'', ''totalDifficulty'', ''size'', ''gasLimit'', ''gasUsed'', ''timestamp'']
                (returnTypeOr callOptions (defaultReturnType this)))"
| "resultFormat this callOptions (GetUncleByBlockNumberAndIndex blockIdentifier uncleIndex) =
     Some (\<lambda>result. formatRpcResultArray result
                [''number'', ''nonce'', ''difficulty'', ''totalDifficulty'', ''size'', ''gasLimit'', ''gasUsed'', ''timestamp'']
                (returnTypeOr callOptions (defaultReturnType this)))"
| "resultFormat this callOptions GetCompilers = None"
| "resultFormat this callOptions (CompileSolidity sourceCode) = None"
| "resultFormat this callOptions (CompileLLL sourceCode) = None"
| "resultFormat this callOptions (CompileSerpent sourceCode) = None"
| "resultFormat this callOptions (NewFilter filter') =
     Some (\<lambda>result. formatOutput result (returnTypeOr callOptions (defaultReturnType this)))"
| "resultFormat this callOptions NewBlockFilter =
     Some (\<lambda>result. formatOutput result (returnTypeOr callOptions (defaultReturnType this)))"
| "resultFormat this callOptions NewPendingTransactionFilter =
     Some (\<lambda>result. formatOutput result (returnTypeOr callOptions (defaultReturnType this)))"
| "resultFormat this callOptions (UninstallFilter filterId) = None"
| "resultFormat this callOptions (GetFilterChanges filterId) =
     Some (\<lambda>result. formatRpcResultArray result
                [''logIndex'', ''transactionIndex'', ''blockNumber'']
                (returnTypeOr callOptions (defaultReturnType this)))"
| "resultFormat this callOptions (GetFilterLogs filterId) =
     Some (\<lambda>result. formatRpcResultArray result
                [''logIndex'', ''transactionIndex'', ''blockNumber'']
                (returnTypeOr callOptions (defaultReturnType this)))"
| "resultFormat this callOptions (GetLogs filter') =
     Some (\<lambda>result. formatRpcResultArray result
                [''logIndex'', ''transactionIndex'', ''blockNumber'']
                (returnTypeOr callOptions (defaultReturnType this)))"
| "resultFormat this callOptions GetWork = None"
| "resultFormat this callOptions (SubmitWork nonce powHash digest) = None"
| "resultFormat this callOptions (SubmitHashRate hashRate clientId) = None"



subsection \<open>Vocabulary of the proofs\<close>


text \<open>The two ways a method ends, under one name: forwarding the reply, or normalizing
  the result of the response.\<close>

definition dispatch ::
  "Web3Eth \<Rightarrow> string \<times> jsval list \<times> CallOptions option
   \<Rightarrow> (jsval \<Rightarrow> error + jsval) option \<Rightarrow> reply effect" where
  "dispatch this requestParameters format =
     (case format of
        None \<Rightarrow> sendOrSubscribe this requestParameters
      | Some f \<Rightarrow> sendAndFormat this requestParameters f)"

text \<open>A client whose request manager answers every request with a null result and every
  subscription with a handle; the concrete instance the closed theorems below are
  evaluated at.\<close>

definition nullResponse :: jsobject where
  "nullResponse = [(''id'', JNum 1), (''jsonrpc'', JStr ''2.0''), (''result'', JNull)]"

definition nullManager :: Web3RequestManager where
  "nullManager =
     \<lparr>rm_send = (\<lambda>req pco. Inr nullResponse),
      rm_subscribe = (\<lambda>req pco. Inr (JStr ''0x1''))\<rparr>"

definition nullClient :: Web3Eth where
  "nullClient = constructor nullManager None"

text \<open>A client whose node reports that it is syncing, with the default output
  representation its constructor is given.\<close>

definition syncingResponse :: jsobject where
  "syncingResponse =
     [(''id'', JNum 1), (''jsonrpc'', JStr ''2.0''),
      (''result'', JObj [(''startingBlock'', JStr ''0x10''), (''currentBlock'', JStr ''0x20''),
                        (''highestBlock'', JStr ''0x30''), (''knownStates'', JStr ''0x40'')])]"

definition syncingClient :: "ValidTypesEnum option \<Rightarrow> Web3Eth" where
  "syncingClient optionsReturnType =
     constructor
       \<lparr>rm_send = (\<lambda>req pco. Inr syncingResponse),
        rm_subscribe = (\<lambda>req pco. Inr (JStr ''0x1''))\<rparr>
       optionsReturnType"

text \<open>A client whose node reports that it is not syncing.\<close>

definition idleResponse :: jsobject where
  "idleResponse = [(''id'', JNum 1), (''jsonrpc'', JStr ''2.0''), (''result'', JBool False)]"

definition idleClient :: Web3Eth where
  "idleClient =
     constructor
       \<lparr>rm_send = (\<lambda>req pco. Inr idleResponse),
        rm_subscribe = (\<lambda>req pco. Inr (JStr ''0x1''))\<rparr>
       None"



text \<open>Call options that only override the output representation.\<close>

definition withReturnType :: "ValidTypesEnum \<Rightarrow> CallOptions" where
  "withReturnType t =
     \<lparr>rpcOptions = [], providerCallOptions = JUndefined, returnType = Some t, subscribe = False\<rparr>"

section \<open>Properties of the format converter\<close>

subsection \<open>Digits and numerals\<close>

lemma less_16_cases:
  "d < 16 \<Longrightarrow> d \<in> {0, 1, 2, 3, 4, 5, 6, 7, 8, 9, 10, 11, 12, 13, 14, 15::nat}"
  by (simp add: less_Suc_eq numeral_eq_Suc)

lemma digitValue_digitChar: "d < 16 \<Longrightarrow> digitValue (digitChar d) = Some d"
  by (drule less_16_cases) (elim insertE emptyE; simp add: digitValue_def digitChar_def)


lemma digitValue_zero: "digitValue c = Some 0 \<longleftrightarrow> c = CHR ''0''"
  by (auto simp add: digitValue_def split: if_splits)


lemma digitsValue_snoc:
  "digitsValue b (cs @ [c]) = digitsValue b cs * b + (case digitValue c of None \<Rightarrow> 0 | Some d \<Rightarrow> d)"
  by (simp add: digitsValue_def)

lemma digitsValue_toDigits:
  "2 \<le> b \<Longrightarrow> b \<le> 16 \<Longrightarrow> digitsValue b (toDigits b n) = n"
proof (induction b n rule: toDigits.induct)
  case (1 b n)
  show ?case
  proof (cases "n = 0")
    case True
    then show ?thesis by (simp add: toDigits.simps digitsValue_def)
  next
    case False
    with 1 have ih: "digitsValue b (toDigits b (n div b)) = n div b" by simp
    from 1 have "n mod b < 16" using mod_less_divisor [of b n] by linarith
    then have dv: "digitValue (digitChar (n mod b)) = Some (n mod b)"
      by (rule digitValue_digitChar)
    have "toDigits b n = toDigits b (n div b) @ [digitChar (n mod b)]"
      using False 1 by (subst toDigits.simps) simp
    then show ?thesis by (simp add: digitsValue_snoc ih dv)
  qed
qed



lemma toDigits_zero: "toDigits b 0 = []"
  by (simp add: toDigits.simps)

















subsection \<open>Round trips\<close>





subsection \<open>Byte-width padding\<close>

lemma length_toDigits_le:
  "2 \<le> b \<Longrightarrow> length (toDigits b n) \<le> k \<longleftrightarrow> n < b ^ k"
proof (induction b n arbitrary: k rule: toDigits.induct)
  case (1 b n)
  show ?case
  proof (cases "n = 0")
    case True
    with 1(2) show ?thesis by (simp add: toDigits_zero)
  next
    case False
    have td: "toDigits b n = toDigits b (n div b) @ [digitChar (n mod b)]"
      using False 1(2) by (subst toDigits.simps) simp
    show ?thesis
    proof (cases k)
      case 0
      with False td show ?thesis by simp
    next
      case (Suc j)
      from 1(1) [of j] False 1(2)
      have ih: "length (toDigits b (n div b)) \<le> j \<longleftrightarrow> n div b < b ^ j" by simp
      have "n div b < b ^ j \<longleftrightarrow> n < b ^ j * b"
        using 1(2) by (intro div_less_iff_less_mult) simp
      with ih td Suc show ?thesis by (simp add: mult.commute)
    qed
  qed
qed

lemma digitsValue_zeros: "digitsValue b (replicate k CHR ''0'' @ cs) = digitsValue b cs"
proof (induction k)
  case 0
  show ?case by simp
next
  case (Suc k)
  have "digitsValue b (CHR ''0'' # replicate k CHR ''0'' @ cs) =
        foldl (\<lambda>a c. a * b + (case digitValue c of None \<Rightarrow> 0 | Some d \<Rightarrow> d)) 0 (replicate k CHR ''0'' @ cs)"
    by (simp add: digitsValue_def digitValue_def)
  with Suc show ?case by (simp add: digitsValue_def)
qed

lemma convertPadded_fits:
  assumes "parseValue v = Inr n" and "n < 256 ^ w"
  shows "convertPadded v w =
           Inr (''0x'' @ replicate (2 * w - length (toDigits 16 n)) CHR ''0'' @ toDigits 16 n)"
    and "length (toDigits 16 n) \<le> 2 * w"
proof -
  have "(256::nat) ^ w = 16 ^ (2 * w)" by (simp add: power_mult)
  with assms(2) have "n < 16 ^ (2 * w)" by simp
  then show le: "length (toDigits 16 n) \<le> 2 * w"
    by (simp add: length_toDigits_le)
  with assms(1) show "convertPadded v w =
           Inr (''0x'' @ replicate (2 * w - length (toDigits 16 n)) CHR ''0'' @ toDigits 16 n)"
    by (simp add: convertPadded_def Let_def)
qed

lemma convertPadded_exceeds:
  assumes "parseValue v = Inr n" and "256 ^ w \<le> n"
  shows "convertPadded v w = Inl (ConversionError v)"
proof -
  have "(256::nat) ^ w = 16 ^ (2 * w)" by (simp add: power_mult)
  with assms(2) have "\<not> n < 16 ^ (2 * w)" by simp
  then have "\<not> length (toDigits 16 n) \<le> 2 * w"
    by (simp add: length_toDigits_le)
  with assms(1) show ?thesis by (simp add: convertPadded_def Let_def)
qed

section \<open>Properties of the client\<close>

subsection \<open>The stanzas\<close>

lemma sendOrSubscribe_fst:
  "fst (sendOrSubscribe this (m, ps, co)) =
     [(if subscribeOf co then Subscribed else Sent) (request m ps co) (providerCallOptionsOf co)]"
  by (simp add: sendOrSubscribe_def Web3Eth_subscribe_def Web3Eth_send_def)

lemma tryCatch_fst: "fst (tryCatch ctx r) = fst r"
  by (simp add: tryCatch_def split: sum.splits)

subsection \<open>The hash rate is sent 32 bytes wide\<close>

text \<open>
  Claim C8. The byte-width overload of the converter, which \<^verbatim>\<open>submitHashRate\<close> calls with
  width 32, left-pads the hex output with zeros to exactly the requested number of bytes:
  \<^verbatim>\<open>"0x1"\<close> at width 32 is \<^verbatim>\<open>0x\<close> followed by 63 zeros and a 1; a value that fits in \<open>w\<close>
  bytes comes out \<open>2 + 2 * w\<close> characters long and denotes the same quantity; a value that
  exceeds \<open>w\<close> bytes fails with \<open>ConversionError\<close>; and \<^verbatim>\<open>submitHashRate\<close> dispatches the
  hash rate converted at width 32.
\<close>

theorem formatInput_byteLength:
  "formatInput (JStr ''0x1'') (Some 32) = Inr (''0x'' @ replicate 63 CHR ''0'' @ ''1'') \<and>
   (parseValue v = Inr n \<and> n < 256 ^ w \<longrightarrow>
      (\<exists>h. formatInput v (Some w) = Inr h \<and> length h = 2 + 2 * w \<and>
           h = ''0x'' @ replicate (2 * w - length (toDigits 16 n)) CHR ''0'' @ toDigits 16 n \<and>
           digitsValue 16 (drop 2 h) = n)) \<and>
   (parseValue v = Inr n \<and> 256 ^ w \<le> n \<longrightarrow> formatInput v (Some w) = Inl (ConversionError v)) \<and>
   (formatInput hashRate (Some 32) = Inr hr \<and> formatInput clientId None = Inr ci \<longrightarrow>
      fst (submitHashRate this hashRate clientId callOptions) =
        [(if subscribeOf callOptions then Subscribed else Sent)
           (request ''eth_submitHashRate'' [JStr hr, JStr ci] callOptions)
           (providerCallOptionsOf callOptions)])"
proof (intro conjI impI)
  show "formatInput (JStr ''0x1'') (Some 32) = Inr (''0x'' @ replicate 63 CHR ''0'' @ ''1'')"
    by (simp add: formatInput_def convertPadded_def parseValue_def isHexString_def isHexDigit_def
        digitValue_def digitsValue_def toDigits.simps digitChar_def)
next
  assume a: "parseValue v = Inr n \<and> n < 256 ^ w"
  let ?ds = "toDigits 16 n"
  let ?h = "''0x'' @ replicate (2 * w - length ?ds) CHR ''0'' @ ?ds"
  from a have pv: "parseValue v = Inr n" and lt: "n < 256 ^ w" by simp_all
  have 1: "formatInput v (Some w) = Inr ?h"
    by (simp add: formatInput_def convertPadded_fits(1) [OF pv lt])
  have le: "length ?ds \<le> 2 * w"
    by (rule convertPadded_fits(2) [OF pv lt])
  from le have 2: "length ?h = 2 + 2 * w" by simp
  have 3: "digitsValue 16 (drop 2 ?h) = n"
    by (simp add: digitsValue_zeros digitsValue_toDigits)
  from 1 2 3 show "\<exists>h. formatInput v (Some w) = Inr h \<and> length h = 2 + 2 * w \<and>
           h = ''0x'' @ replicate (2 * w - length (toDigits 16 n)) CHR ''0'' @ toDigits 16 n \<and>
           digitsValue 16 (drop 2 h) = n" by blast
next
  assume "parseValue v = Inr n \<and> 256 ^ w \<le> n"
  then show "formatInput v (Some w) = Inl (ConversionError v)"
    by (simp add: formatInput_def convertPadded_exceeds)
next
  assume "formatInput hashRate (Some 32) = Inr hr \<and> formatInput clientId None = Inr ci"
  then show "fst (submitHashRate this hashRate clientId callOptions) =
        [(if subscribeOf callOptions then Subscribed else Sent)
           (request ''eth_submitHashRate'' [JStr hr, JStr ci] callOptions)
           (providerCallOptionsOf callOptions)]"
    by (simp add: submitHashRate_def tryCatch_fst withParams_def inputParam_def
        sendOrSubscribe_fst)
qed

theorem formatInput_byteLength_witness:
  "parseValue (JStr ''0x1'') = Inr 1 \<and> (1::nat) < 256 ^ 32 \<and>
   (\<exists>h. formatInput (JStr ''0x1'') (Some 32) = Inr h \<and> length h = 2 + 2 * 32) \<and>
   parseValue (JStr ''0x10000'') = Inr 65536 \<and> (256::nat) ^ 2 \<le> 65536 \<and>
   formatInput (JStr ''0x10000'') (Some 2) = Inl (ConversionError (JStr ''0x10000'')) \<and>
   formatInput (JStr ''0x1'') (Some 32) = Inr (''0x'' @ replicate 63 CHR ''0'' @ ''1'') \<and>
   formatInput (JNum 7) None = Inr ''0x7'' \<and>
   fst (submitHashRate nullClient (JStr ''0x1'') (JNum 7) None) =
     [Sent (request ''eth_submitHashRate'' [JStr (''0x'' @ replicate 63 CHR ''0'' @ ''1''), JStr ''0x7''] None)
        JUndefined]"
proof -
  have p1: "parseValue (JStr ''0x1'') = Inr 1 \<and> (1::nat) < 256 ^ 32"
    by (simp add: parseValue_def isHexString_def isHexDigit_def digitValue_def digitsValue_def)
  have p2: "parseValue (JStr ''0x10000'') = Inr 65536 \<and> (256::nat) ^ 2 \<le> 65536"
    by (simp add: parseValue_def isHexString_def isHexDigit_def digitValue_def digitsValue_def)
  have p3: "formatInput (JNum 7) None = Inr ''0x7''"
    by (simp add: formatInput_def parseValue_def toHexString_def toDigits.simps digitChar_def)
  note t1 = formatInput_byteLength [of "JStr ''0x1''" 1 32 "JStr ''0x1''"
      "''0x'' @ replicate 63 CHR ''0'' @ ''1''" "JNum 7" "''0x7''" nullClient None]
  note t2 = formatInput_byteLength [of "JStr ''0x10000''" 65536 2 "JStr ''0x1''"
      "''0x'' @ replicate 63 CHR ''0'' @ ''1''" "JNum 7" "''0x7''" nullClient None]
  from t1 p1 p3 have a: "(\<exists>h. formatInput (JStr ''0x1'') (Some 32) = Inr h \<and> length h = 2 + 2 * 32)"
    and b: "formatInput (JStr ''0x1'') (Some 32) = Inr (''0x'' @ replicate 63 CHR ''0'' @ ''1'')"
    and c: "fst (submitHashRate nullClient (JStr ''0x1'') (JNum 7) None) =
     [Sent (request ''eth_submitHashRate'' [JStr (''0x'' @ replicate 63 CHR ''0'' @ ''1''), JStr ''0x7''] None)
        JUndefined]"
    by (auto simp add: subscribeOf_def providerCallOptionsOf_def)
  from t2 p2 have d: "formatInput (JStr ''0x10000'') (Some 2) = Inl (ConversionError (JStr ''0x10000''))"
    by blast
  from a b c d p1 p2 p3 show ?thesis by blast
qed


subsection \<open>Every method has the same shape\<close>

text \<open>Each method wraps, in its context message, the evaluation of its parameter array
  followed by one of the two endings on its method name.\<close>

lemmas method_defs = getClientVersion_def getSha3_def getNetworkVersion_def getNetworkListening_def getNetworkPeerCount_def getProtocolVersion_def getSyncing_def getCoinbase_def getMining_def getHashRate_def getGasPrice_def getAccounts_def getBlockNumber_def getBalance_def getStorageAt_def getTransactionCount_def getBlockTransactionCountByHash_def getBlockTransactionCountByNumber_def getUncleCountByBlockHash_def getUncleCountByBlockNumber_def getCode_def sign_def signTransaction_def sendTransaction_def sendRawTransaction_def call_def estimateGas_def getBlockByHash_def getBlockByNumber_def getTransactionByHash_def getTransactionByBlockHashAndIndex_def getTransactionByBlockNumberAndIndex_def getTransactionReceipt_def getUncleByBlockHashAndIndex_def getUncleByBlockNumberAndIndex_def getCompilers_def compileSolidity_def compileLLL_def compileSerpent_def newFilter_def newBlockFilter_def newPendingTransactionFilter_def uninstallFilter_def getFilterChanges_def getFilterLogs_def getLogs_def getWork_def submitWork_def submitHashRate_def

lemma invoke_shape:
  "invoke this op co =
     tryCatch (contextMessage op)
       (withParams (parameters op)
          (\<lambda>ps. dispatch this (methodName op, ps, co) (resultFormat this co op)))"
  by (cases op) (simp_all add: method_defs dispatch_def)

lemma dispatch_subscribe:
  "subscribeOf co \<Longrightarrow>
   dispatch this (m, ps, co) fmt =
     ([Subscribed (request m ps co) (providerCallOptionsOf co)],
      map_sum id Subscription
        (rm_subscribe (requestManager this) (request m ps co) (providerCallOptionsOf co)))"
  by (simp add: dispatch_def sendOrSubscribe_def sendAndFormat_def Web3Eth_subscribe_def
      split: option.splits)

lemma dispatch_send_fst:
  "\<not> subscribeOf co \<Longrightarrow>
   fst (dispatch this (m, ps, co) fmt) = [Sent (request m ps co) (providerCallOptionsOf co)]"
  by (simp add: dispatch_def sendOrSubscribe_def sendAndFormat_def Web3Eth_send_def
      split: option.splits sum.splits)


lemma sequenceE_fails:
  "Inl e0 \<in> set ps \<Longrightarrow> \<exists>e. Inl e \<in> set ps \<and> sequenceE ps = Inl e"
  by (induction ps) (auto split: sum.splits)


lemma update_same: "map_of al k = Some v \<Longrightarrow> AList.update k v al = al"
  by (induction al) (auto split: if_splits)

lemma getProp_request_method: "getProp (request m ps co) ''method'' = JStr m"
  by (simp add: getProp_def request_def update_conv')

lemma getProp_request_params: "getProp (request m ps co) ''params'' = JArr ps"
  by (simp add: getProp_def request_def update_conv')

lemma invoke_subscribe:
  assumes "subscribeOf co" and "sequenceE (parameters op) = Inr ps"
  shows "invoke this op co =
     ([Subscribed (request (methodName op) ps co) (providerCallOptionsOf co)],
      case rm_subscribe (requestManager this) (request (methodName op) ps co)
             (providerCallOptionsOf co) of
        Inl e \<Rightarrow> Inl (Error (contextMessage op) e)
      | Inr s \<Rightarrow> Inr (Subscription s))"
  using assms
  by (simp add: invoke_shape withParams_def dispatch_subscribe tryCatch_def split: sum.splits)

lemma invoke_send_fst:
  assumes "\<not> subscribeOf co" and "sequenceE (parameters op) = Inr ps"
  shows "fst (invoke this op co) =
     [Sent (request (methodName op) ps co) (providerCallOptionsOf co)]"
  using assms
  by (simp add: invoke_shape withParams_def tryCatch_fst dispatch_send_fst)

lemma request_subscribe_irrelevant:
  "request m ps (Some (co\<lparr>subscribe := b\<rparr>)) = request m ps (Some co)"
  by (simp add: request_def rpcOptionsOf_def)

lemma formatInput_100: "formatInput (JNum 100) None = Inr ''0x64''"
  by (simp add: formatInput_def parseValue_def toHexString_def toDigits.simps digitChar_def)

lemma formatInput_zz: "formatInput (JStr ''zz'') None = Inl (ConversionError (JStr ''zz''))"
  by (simp add: formatInput_def parseValue_def isHexString_def isDecimalString_def
      isDecimalDigit_def digitValue_def)

lemma formatInput_1: "formatInput (JNum 1) None = Inr ''0x1''"
  by (simp add: formatInput_def parseValue_def toHexString_def toDigits.simps digitChar_def)

subsection \<open>Subscribe mode\<close>

text \<open>
  Claim C10. For every public operation called with \<^verbatim>\<open>callOptions.subscribe\<close> true, whose
  parameters convert: the one thing done to the request manager is a \<^verbatim>\<open>subscribe\<close> call, and
  the operation returns the handle that call yields as it is, no normalization applied,
  also for the operations that normalize a response (a rejection of the call is wrapped
  in the context message of the method); and the request carries exactly the method name
  and parameter list that the same call in request/response mode sends.
\<close>

theorem subscribe_forwards_handle:
  assumes "subscribe co" and "sequenceE (parameters op) = Inr ps"
  shows "invoke this op (Some co) =
           ([Subscribed (request (methodName op) ps (Some co)) (providerCallOptions co)],
            case rm_subscribe (requestManager this) (request (methodName op) ps (Some co))
                   (providerCallOptions co) of
              Inl e \<Rightarrow> Inl (Error (contextMessage op) e)
            | Inr s \<Rightarrow> Inr (Subscription s)) \<and>
         fst (invoke this op (Some (co\<lparr>subscribe := False\<rparr>))) =
           [Sent (request (methodName op) ps (Some co)) (providerCallOptions co)] \<and>
         getProp (request (methodName op) ps (Some co)) ''method'' = JStr (methodName op) \<and>
         getProp (request (methodName op) ps (Some co)) ''params'' = JArr ps"
proof -
  from assms(1) have s: "subscribeOf (Some co)" by (simp add: subscribeOf_def)
  have n: "\<not> subscribeOf (Some (co\<lparr>subscribe := False\<rparr>))" by (simp add: subscribeOf_def)
  have 1: "invoke this op (Some co) =
           ([Subscribed (request (methodName op) ps (Some co)) (providerCallOptions co)],
            case rm_subscribe (requestManager this) (request (methodName op) ps (Some co))
                   (providerCallOptions co) of
              Inl e \<Rightarrow> Inl (Error (contextMessage op) e)
            | Inr s \<Rightarrow> Inr (Subscription s))"
    using invoke_subscribe [OF s assms(2), of this] by (simp add: providerCallOptionsOf_def)
  have 2: "fst (invoke this op (Some (co\<lparr>subscribe := False\<rparr>))) =
           [Sent (request (methodName op) ps (Some co)) (providerCallOptions co)]"
    using invoke_send_fst [OF n assms(2), of this]
    by (simp add: providerCallOptionsOf_def request_subscribe_irrelevant)
  from 1 2 show ?thesis
    by (simp add: getProp_request_method getProp_request_params)
qed

theorem subscribe_forwards_handle_witness:
  "subscribe ((withReturnType Number)\<lparr>subscribe := True\<rparr>) \<and>
   sequenceE (parameters (GetBlockByNumber (JNum 100) True)) = Inr [JStr ''0x64'', JBool True] \<and>
   invoke nullClient (GetBlockByNumber (JNum 100) True)
       (Some ((withReturnType Number)\<lparr>subscribe := True\<rparr>)) =
     ([Subscribed [(''method'', JStr ''eth_getBlockByNumber''),
                   (''params'', JArr [JStr ''0x64'', JBool True])] JUndefined],
      Inr (Subscription (JStr ''0x1''))) \<and>
   fst (invoke nullClient (GetBlockByNumber (JNum 100) True) (Some (withReturnType Number))) =
     [Sent [(''method'', JStr ''eth_getBlockByNumber''),
            (''params'', JArr [JStr ''0x64'', JBool True])] JUndefined]"
proof -
  let ?co = "(withReturnType Number)\<lparr>subscribe := True\<rparr>"
  have s: "subscribe ?co" by (simp add: withReturnType_def)
  have p: "sequenceE (parameters (GetBlockByNumber (JNum 100) True)) = Inr [JStr ''0x64'', JBool True]"
    by (simp add: inputParam_def formatInput_100)
  have c: "?co\<lparr>subscribe := False\<rparr> = withReturnType Number" by (simp add: withReturnType_def)
  from subscribe_forwards_handle [OF s p, of nullClient] c s p show ?thesis
    by (simp add: request_def rpcOptionsOf_def withReturnType_def nullClient_def
        constructor_def nullManager_def)
qed

subsection \<open>A failing input conversion\<close>

text \<open>
  Claim C3, as amended. For every public operation, if the conversion of a parameter
  fails, nothing is transmitted to the request manager and the operation fails with a
  single error made of the context message of the method and the cause, the error of a
  failing conversion.
\<close>

theorem conversion_failure_is_wrapped:
  assumes "Inl e0 \<in> set (parameters op)"
  shows "\<exists>e. Inl e \<in> set (parameters op) \<and>
             invoke this op callOptions = ([], Inl (Error (contextMessage op) e))"
proof -
  from sequenceE_fails [OF assms] obtain e
    where e: "Inl e \<in> set (parameters op)" "sequenceE (parameters op) = Inl e" by blast
  from e(2) have "invoke this op callOptions = ([], Inl (Error (contextMessage op) e))"
    by (simp add: invoke_shape withParams_def tryCatch_def)
  with e(1) show ?thesis by blast
qed

theorem conversion_failure_is_wrapped_witness:
  "Inl (ConversionError (JStr ''zz'')) \<in> set (parameters (GetStorageAt ''0xab'' (JNum 1) (JStr ''zz''))) \<and>
   invoke nullClient (GetStorageAt ''0xab'' (JNum 1) (JStr ''zz'')) None =
     ([], Inl (Error ''Error getting storage value'' (ConversionError (JStr ''zz''))))"
proof -
  have m: "Inl (ConversionError (JStr ''zz'')) \<in> set (parameters (GetStorageAt ''0xab'' (JNum 1) (JStr ''zz'')))"
    by (simp add: inputParam_def formatInput_zz)
  from conversion_failure_is_wrapped [OF m, of nullClient None] m show ?thesis
    by (auto simp add: inputParam_def formatInput_zz formatInput_1)
qed

text \<open>
  Claim C3 as stated also wants the error to identify the failing field. It does not:
  \<^verbatim>\<open>getStorageAt\<close> fails with the same error whether the storage position or the block
  identifier is the value that does not convert.
\<close>

theorem failing_field_not_identified:
  "getStorageAt nullClient ''0xab'' (JStr ''zz'') (JNum 1) None =
     ([], Inl (Error ''Error getting storage value'' (ConversionError (JStr ''zz'')))) \<and>
   getStorageAt nullClient ''0xab'' (JNum 1) (JStr ''zz'') None =
     ([], Inl (Error ''Error getting storage value'' (ConversionError (JStr ''zz'')))) \<and>
   formatInput (JStr ''zz'') None = Inl (ConversionError (JStr ''zz'')) \<and>
   formatInput (JNum 1) None = Inr ''0x1''"
  by (simp add: getStorageAt_def withParams_def tryCatch_def inputParam_def formatInput_zz
      formatInput_1)


subsection \<open>The normalizer on null and on sequences\<close>



lemma getProp_Some: "map_of obj k = Some v \<Longrightarrow> getProp obj k = v"
  by (simp add: getProp_def)

subsection \<open>The syncing status\<close>

lemma normalizeFields_other:
  "k \<notin> set fs \<Longrightarrow> normalizeFields obj fs t = Inr obj' \<Longrightarrow> map_of obj' k = map_of obj k"
proof (induction fs arbitrary: obj)
  case Nil
  then show ?case by simp
next
  case (Cons f fs)
  then show ?case
    by (auto simp add: update_conv' split: option.splits sum.splits)
qed

lemma normalizeFields_absent:
  "map_of obj k = None \<Longrightarrow> normalizeFields obj fs t = Inr obj' \<Longrightarrow> map_of obj' k = None"
proof (induction fs arbitrary: obj)
  case Nil
  then show ?case by simp
next
  case (Cons f fs)
  show ?case
  proof (cases "map_of obj f")
    case None
    with Cons show ?thesis by simp
  next
    case (Some v)
    with Cons.prems obtain v' where v': "convert v t = Inr v'"
      and r: "normalizeFields (AList.update f v' obj) fs t = Inr obj'"
      by (auto split: sum.splits)
    from Some Cons.prems(1) have "k \<noteq> f" by auto
    with Cons.prems(1) have "map_of (AList.update f v' obj) k = None"
      by (simp add: update_conv')
    from Cons.IH [OF this r] show ?thesis .
  qed
qed

lemma normalizeFields_named:
  "distinct fs \<Longrightarrow> k \<in> set fs \<Longrightarrow> map_of obj k = Some v \<Longrightarrow>
   normalizeFields obj fs t = Inr obj' \<Longrightarrow>
   \<exists>v'. convert v t = Inr v' \<and> map_of obj' k = Some v'"
proof (induction fs arbitrary: obj)
  case Nil
  then show ?case by simp
next
  case (Cons f fs)
  show ?case
  proof (cases "k = f")
    case True
    with Cons.prems obtain v' where v': "convert v t = Inr v'"
      and r: "normalizeFields (AList.update f v' obj) fs t = Inr obj'"
      by (auto split: sum.splits)
    from Cons.prems(1) True have "k \<notin> set fs" by simp
    from normalizeFields_other [OF this r] True have "map_of obj' k = Some v'"
      by (simp add: update_conv')
    with v' show ?thesis by blast
  next
    case False
    with Cons.prems(2) have k: "k \<in> set fs" by simp
    from Cons.prems(1) have d: "distinct fs" by simp
    show ?thesis
    proof (cases "map_of obj f")
      case None
      with Cons.prems(4) have "normalizeFields obj fs t = Inr obj'" by simp
      from Cons.IH [OF d k Cons.prems(3) this] show ?thesis .
    next
      case (Some w)
      with Cons.prems(4) obtain w' where
        r: "normalizeFields (AList.update f w' obj) fs t = Inr obj'"
        by (auto split: sum.splits)
      from False Cons.prems(3) have "map_of (AList.update f w' obj) k = Some v"
        by (simp add: update_conv')
      from Cons.IH [OF d k this r] show ?thesis .
    qed
  qed
qed

lemma getSyncing_send:
  assumes "\<not> subscribeOf callOptions"
    and "rm_send (requestManager this) (request ''eth_syncing'' [] callOptions)
           (providerCallOptionsOf callOptions) = Inr response"
  shows "getSyncing this callOptions =
     tryCatch ''Error getting syncing status''
       ([Sent (request ''eth_syncing'' [] callOptions) (providerCallOptionsOf callOptions)],
        case formatRpcResultArray (getProp response ''result'')
               [''startingBlock'', ''currentBlock'', ''highestBlock''] (defaultReturnType this) of
          Inl e \<Rightarrow> Inl e
        | Inr result \<Rightarrow> Inr (Response (AList.update ''result'' result response)))"
  using assms
  by (simp add: getSyncing_def withParams_def sendAndFormat_def Web3Eth_send_def
      split: sum.splits)

lemma convert_hex_Number_16: "convert (JStr ''0x10'') Number = Inr (JNum 16)"
  by (simp add: convert_def parseValue_def isHexString_def isHexDigit_def digitValue_def
      digitsValue_def MAX_SAFE_INTEGER_def)

lemma convert_hex_Number_32: "convert (JStr ''0x20'') Number = Inr (JNum 32)"
  by (simp add: convert_def parseValue_def isHexString_def isHexDigit_def digitValue_def
      digitsValue_def MAX_SAFE_INTEGER_def)

lemma convert_hex_Number_48: "convert (JStr ''0x30'') Number = Inr (JNum 48)"
  by (simp add: convert_def parseValue_def isHexString_def isHexDigit_def digitValue_def
      digitsValue_def MAX_SAFE_INTEGER_def)

text \<open>
  Claim C6. \<^verbatim>\<open>getSyncing\<close> in request/response mode: when the node answers the boolean
  false, the response is returned as received, its result still false; when the node
  answers the structured record and its fields convert, the record is returned with
  \<^verbatim>\<open>startingBlock\<close>, \<^verbatim>\<open>currentBlock\<close> and \<^verbatim>\<open>highestBlock\<close> converted to the client's
  default representation where present, and every other field as received.
\<close>

theorem getSyncing_normalizes_the_record_only:
  "(\<not> subscribeOf callOptions \<and>
    rm_send (requestManager this) (request ''eth_syncing'' [] callOptions)
      (providerCallOptionsOf callOptions) = Inr response \<and>
    map_of response ''result'' = Some (JBool False) \<longrightarrow>
      getSyncing this callOptions =
        ([Sent (request ''eth_syncing'' [] callOptions) (providerCallOptionsOf callOptions)],
         Inr (Response response))) \<and>
   (\<not> subscribeOf callOptions \<and>
    rm_send (requestManager this) (request ''eth_syncing'' [] callOptions)
      (providerCallOptionsOf callOptions) = Inr response \<and>
    map_of response ''result'' = Some (JObj obj) \<and>
    normalizeFields obj [''startingBlock'', ''currentBlock'', ''highestBlock'']
      (defaultReturnType this) = Inr obj' \<longrightarrow>
      getSyncing this callOptions =
        ([Sent (request ''eth_syncing'' [] callOptions) (providerCallOptionsOf callOptions)],
         Inr (Response (AList.update ''result'' (JObj obj') response))) \<and>
      (\<forall>k v. map_of obj k = Some v \<longrightarrow>
         (if k \<in> {''startingBlock'', ''currentBlock'', ''highestBlock''}
          then \<exists>v'. convert v (defaultReturnType this) = Inr v' \<and> map_of obj' k = Some v'
          else map_of obj' k = Some v)) \<and>
      (\<forall>k. map_of obj k = None \<longrightarrow> map_of obj' k = None))"
proof (intro conjI impI allI)
  assume a: "\<not> subscribeOf callOptions \<and>
    rm_send (requestManager this) (request ''eth_syncing'' [] callOptions)
      (providerCallOptionsOf callOptions) = Inr response \<and>
    map_of response ''result'' = Some (JBool False)"
  then have "getProp response ''result'' = JBool False"
    and "AList.update ''result'' (JBool False) response = response"
    by (simp_all add: getProp_Some update_same)
  with a show "getSyncing this callOptions =
        ([Sent (request ''eth_syncing'' [] callOptions) (providerCallOptionsOf callOptions)],
         Inr (Response response))"
    by (simp add: getSyncing_send formatRpcResultArray_def normalizeRecord_def tryCatch_def)
next
  assume a: "\<not> subscribeOf callOptions \<and>
    rm_send (requestManager this) (request ''eth_syncing'' [] callOptions)
      (providerCallOptionsOf callOptions) = Inr response \<and>
    map_of response ''result'' = Some (JObj obj) \<and>
    normalizeFields obj [''startingBlock'', ''currentBlock'', ''highestBlock'']
      (defaultReturnType this) = Inr obj'"
  then have "getProp response ''result'' = JObj obj" by (simp add: getProp_Some)
  with a show "getSyncing this callOptions =
        ([Sent (request ''eth_syncing'' [] callOptions) (providerCallOptionsOf callOptions)],
         Inr (Response (AList.update ''result'' (JObj obj') response)))"
    by (simp add: getSyncing_send formatRpcResultArray_def normalizeRecord_def tryCatch_def)
next
  fix k v
  assume a: "\<not> subscribeOf callOptions \<and>
    rm_send (requestManager this) (request ''eth_syncing'' [] callOptions)
      (providerCallOptionsOf callOptions) = Inr response \<and>
    map_of response ''result'' = Some (JObj obj) \<and>
    normalizeFields obj [''startingBlock'', ''currentBlock'', ''highestBlock'']
      (defaultReturnType this) = Inr obj'"
    and kv: "map_of obj k = Some v"
  let ?fs = "[''startingBlock'', ''currentBlock'', ''highestBlock'']"
  from a have n: "normalizeFields obj ?fs (defaultReturnType this) = Inr obj'" by simp
  have d: "distinct ?fs" by simp
  show "if k \<in> {''startingBlock'', ''currentBlock'', ''highestBlock''}
          then \<exists>v'. convert v (defaultReturnType this) = Inr v' \<and> map_of obj' k = Some v'
          else map_of obj' k = Some v"
  proof (cases "k \<in> set ?fs")
    case True
    from normalizeFields_named [OF d True kv n] True show ?thesis by simp
  next
    case False
    from normalizeFields_other [OF False n] kv False show ?thesis by simp
  qed
next
  fix k
  assume a: "\<not> subscribeOf callOptions \<and>
    rm_send (requestManager this) (request ''eth_syncing'' [] callOptions)
      (providerCallOptionsOf callOptions) = Inr response \<and>
    map_of response ''result'' = Some (JObj obj) \<and>
    normalizeFields obj [''startingBlock'', ''currentBlock'', ''highestBlock'']
      (defaultReturnType this) = Inr obj'"
    and kn: "map_of obj k = None"
  from a have n: "normalizeFields obj [''startingBlock'', ''currentBlock'', ''highestBlock'']
      (defaultReturnType this) = Inr obj'" by simp
  from normalizeFields_absent [OF kn n] show "map_of obj' k = None" .
qed


theorem getSyncing_normalizes_the_record_only_witness:
  "\<not> subscribeOf None \<and>
   rm_send (requestManager idleClient) (request ''eth_syncing'' [] None)
     (providerCallOptionsOf None) = Inr idleResponse \<and>
   map_of idleResponse ''result'' = Some (JBool False) \<and>
   snd (getSyncing idleClient None) = Inr (Response idleResponse) \<and>
   rm_send (requestManager (syncingClient (Some Number))) (request ''eth_syncing'' [] None)
     (providerCallOptionsOf None) = Inr syncingResponse \<and>
   map_of syncingResponse ''result'' =
     Some (JObj [(''startingBlock'', JStr ''0x10''), (''currentBlock'', JStr ''0x20''),
                 (''highestBlock'', JStr ''0x30''), (''knownStates'', JStr ''0x40'')]) \<and>
   normalizeFields
     [(''startingBlock'', JStr ''0x10''), (''currentBlock'', JStr ''0x20''),
      (''highestBlock'', JStr ''0x30''), (''knownStates'', JStr ''0x40'')]
     [''startingBlock'', ''currentBlock'', ''highestBlock'']
     (defaultReturnType (syncingClient (Some Number))) =
     Inr [(''startingBlock'', JNum 16), (''currentBlock'', JNum 32),
          (''highestBlock'', JNum 48), (''knownStates'', JStr ''0x40'')] \<and>
   snd (getSyncing (syncingClient (Some Number)) None) =
     Inr (Response
       [(''id'', JNum 1), (''jsonrpc'', JStr ''2.0''),
        (''result'', JObj [(''startingBlock'', JNum 16), (''currentBlock'', JNum 32),
                          (''highestBlock'', JNum 48), (''knownStates'', JStr ''0x40'')])])"
proof -
  let ?obj = "[(''startingBlock'', JStr ''0x10''), (''currentBlock'', JStr ''0x20''),
      (''highestBlock'', JStr ''0x30''), (''knownStates'', JStr ''0x40'')]"
  let ?obj' = "[(''startingBlock'', JNum 16), (''currentBlock'', JNum 32),
          (''highestBlock'', JNum 48), (''knownStates'', JStr ''0x40'')]"
  have i: "\<not> subscribeOf None \<and>
   rm_send (requestManager idleClient) (request ''eth_syncing'' [] None)
     (providerCallOptionsOf None) = Inr idleResponse \<and>
   map_of idleResponse ''result'' = Some (JBool False)"
    by (simp add: subscribeOf_def idleClient_def constructor_def idleResponse_def)
  have s: "\<not> subscribeOf None \<and>
   rm_send (requestManager (syncingClient (Some Number))) (request ''eth_syncing'' [] None)
     (providerCallOptionsOf None) = Inr syncingResponse \<and>
   map_of syncingResponse ''result'' = Some (JObj ?obj) \<and>
   normalizeFields ?obj [''startingBlock'', ''currentBlock'', ''highestBlock'']
     (defaultReturnType (syncingClient (Some Number))) = Inr ?obj'"
    by (simp add: subscribeOf_def syncingClient_def constructor_def syncingResponse_def
        convert_hex_Number_16 convert_hex_Number_32 convert_hex_Number_48)
  from getSyncing_normalizes_the_record_only [of None idleClient idleResponse] i
  have 1: "snd (getSyncing idleClient None) = Inr (Response idleResponse)" by simp
  from getSyncing_normalizes_the_record_only
    [of None "syncingClient (Some Number)" syncingResponse ?obj ?obj'] s
  have "snd (getSyncing (syncingClient (Some Number)) None) =
     Inr (Response (AList.update ''result'' (JObj ?obj') syncingResponse))" by simp
  then have 2: "snd (getSyncing (syncingClient (Some Number)) None) =
     Inr (Response
       [(''id'', JNum 1), (''jsonrpc'', JStr ''2.0''), (''result'', JObj ?obj')])"
    by (simp add: syncingResponse_def)
  from i s 1 2 show ?thesis by simp
qed


subsection \<open>Lookups\<close>







subsection \<open>Transaction objects\<close>

lemma formatField_truthy:
  "truthy (getProp obj k) \<Longrightarrow> formatInput (getProp obj k) None = Inr h \<Longrightarrow>
   formatField obj k = Inr (JStr h)"
  by (simp add: formatField_def inputParam_def)

lemma formatField_falsy: "\<not> truthy (getProp obj k) \<Longrightarrow> formatField obj k = Inr JUndefined"
  by (simp add: formatField_def)

lemma formatField_value:
  assumes "truthy (getProp obj k) \<longrightarrow> formatInput (getProp obj k) None = Inr (hex k)"
  shows "formatField obj k = Inr (if truthy (getProp obj k) then JStr (hex k) else JUndefined)"
  using assms by (simp add: formatField_truthy formatField_falsy)

lemma sendAndFormat_fst:
  "fst (sendAndFormat this (m, ps, co) f) =
     [(if subscribeOf co then Subscribed else Sent) (request m ps co) (providerCallOptionsOf co)]"
  by (simp add: sendAndFormat_def Web3Eth_subscribe_def Web3Eth_send_def split: sum.splits)

lemma transaction_methods_dispatch:
  assumes "transactionParam transaction = Inr p"
  shows "fst (signTransaction this transaction callOptions) =
           [(if subscribeOf callOptions then Subscribed else Sent)
              (request ''eth_signTransaction'' [p] callOptions)
              (providerCallOptionsOf callOptions)]"
    and "fst (sendTransaction this transaction callOptions) =
           [(if subscribeOf callOptions then Subscribed else Sent)
              (request ''eth_sendTransaction'' [p] callOptions)
              (providerCallOptionsOf callOptions)]"
    and "fst (call this transaction callOptions) =
           [(if subscribeOf callOptions then Subscribed else Sent)
              (request ''eth_call'' [p] callOptions)
              (providerCallOptionsOf callOptions)]"
    and "fst (estimateGas this transaction callOptions) =
           [(if subscribeOf callOptions then Subscribed else Sent)
              (request ''eth_estimateGas'' [p] callOptions)
              (providerCallOptionsOf callOptions)]"
  using assms
  by (simp_all add: signTransaction_def sendTransaction_def call_def estimateGas_def
      tryCatch_fst withParams_def sendOrSubscribe_fst sendAndFormat_fst)

lemma formatInput_21000: "formatInput (JNum 21000) None = Inr ''0x5208''"
  by (simp add: formatInput_def parseValue_def toHexString_def toDigits.simps digitChar_def)

lemma formatInput_0: "formatInput (JNum 0) None = Inr ''0x0''"
  by (simp add: formatInput_def parseValue_def toHexString_def)

text \<open>
  Claim C7. \<^verbatim>\<open>signTransaction\<close>, \<^verbatim>\<open>sendTransaction\<close>, \<^verbatim>\<open>call\<close> and \<^verbatim>\<open>estimateGas\<close> dispatch
  the given transaction with each of \<^verbatim>\<open>gas\<close>, \<^verbatim>\<open>gasPrice\<close>, \<^verbatim>\<open>value\<close> and \<^verbatim>\<open>nonce\<close>
  replaced by its \<^verbatim>\<open>formatInput\<close> conversion when its value is truthy and by
  \<^verbatim>\<open>undefined\<close> when it is falsy (so a nonce 0 is sent as \<^verbatim>\<open>undefined\<close>, not as
  \<^verbatim>\<open>"0x0"\<close>); every other field of the transaction is dispatched unchanged. The
  hypothesis says that the truthy fields convert, \<open>hex k\<close> being the conversion of field
  \<open>k\<close>.
\<close>

theorem transaction_fields_converted_only_when_truthy:
  assumes "\<forall>k \<in> {''gas'', ''gasPrice'', ''value'', ''nonce''}.
             truthy (getProp transaction k) \<longrightarrow>
             formatInput (getProp transaction k) None = Inr (hex k)"
  shows "\<exists>dispatched.
           (\<forall>k. map_of dispatched k =
                  (if k \<in> {''gas'', ''gasPrice'', ''value'', ''nonce''}
                   then Some (if truthy (getProp transaction k) then JStr (hex k) else JUndefined)
                   else map_of transaction k)) \<and>
           fst (signTransaction this transaction callOptions) =
             [(if subscribeOf callOptions then Subscribed else Sent)
                (request ''eth_signTransaction'' [JObj dispatched] callOptions)
                (providerCallOptionsOf callOptions)] \<and>
           fst (sendTransaction this transaction callOptions) =
             [(if subscribeOf callOptions then Subscribed else Sent)
                (request ''eth_sendTransaction'' [JObj dispatched] callOptions)
                (providerCallOptionsOf callOptions)] \<and>
           fst (call this transaction callOptions) =
             [(if subscribeOf callOptions then Subscribed else Sent)
                (request ''eth_call'' [JObj dispatched] callOptions)
                (providerCallOptionsOf callOptions)] \<and>
           fst (estimateGas this transaction callOptions) =
             [(if subscribeOf callOptions then Subscribed else Sent)
                (request ''eth_estimateGas'' [JObj dispatched] callOptions)
                (providerCallOptionsOf callOptions)]"
proof -
  let ?val = "\<lambda>k. if truthy (getProp transaction k) then JStr (hex k) else JUndefined"
  let ?d = "AList.update ''nonce'' (?val ''nonce'')
             (AList.update ''value'' (?val ''value'')
             (AList.update ''gasPrice'' (?val ''gasPrice'')
             (AList.update ''gas'' (?val ''gas'') transaction)))"
  from assms have f:
    "formatField transaction ''gas'' = Inr (?val ''gas'')"
    "formatField transaction ''gasPrice'' = Inr (?val ''gasPrice'')"
    "formatField transaction ''value'' = Inr (?val ''value'')"
    "formatField transaction ''nonce'' = Inr (?val ''nonce'')"
    by (simp_all add: formatField_value)
  have p: "transactionParam transaction = Inr (JObj ?d)"
    by (simp only: transactionParam_def f bindE_def sum.case)
  have m: "\<forall>k. map_of ?d k =
                  (if k \<in> {''gas'', ''gasPrice'', ''value'', ''nonce''}
                   then Some (?val k) else map_of transaction k)"
    by (simp add: update_conv')
  show ?thesis
  proof (rule exI [of _ ?d], intro conjI)
    show "\<forall>k. map_of ?d k =
                  (if k \<in> {''gas'', ''gasPrice'', ''value'', ''nonce''}
                   then Some (?val k) else map_of transaction k)" by (rule m)
  qed (rule transaction_methods_dispatch [OF p])+
qed

theorem transaction_fields_converted_only_when_truthy_witness:
  "truthy (getProp [(''from'', JStr ''0xab''), (''nonce'', JNum 0), (''gas'', JNum 21000)] ''gas'') \<and>
   formatInput (getProp [(''from'', JStr ''0xab''), (''nonce'', JNum 0), (''gas'', JNum 21000)] ''gas'')
     None = Inr ''0x5208'' \<and>
   \<not> truthy (getProp [(''from'', JStr ''0xab''), (''nonce'', JNum 0), (''gas'', JNum 21000)] ''gasPrice'') \<and>
   \<not> truthy (getProp [(''from'', JStr ''0xab''), (''nonce'', JNum 0), (''gas'', JNum 21000)] ''value'') \<and>
   \<not> truthy (getProp [(''from'', JStr ''0xab''), (''nonce'', JNum 0), (''gas'', JNum 21000)] ''nonce'') \<and>
   formatInput (JNum 0) None = Inr ''0x0'' \<and>
   (\<exists>dispatched.
      map_of dispatched ''from'' = Some (JStr ''0xab'') \<and>
      map_of dispatched ''gas'' = Some (JStr ''0x5208'') \<and>
      map_of dispatched ''nonce'' = Some JUndefined \<and>
      map_of dispatched ''value'' = Some JUndefined \<and>
      fst (sendTransaction nullClient
             [(''from'', JStr ''0xab''), (''nonce'', JNum 0), (''gas'', JNum 21000)] None) =
        [Sent (request ''eth_sendTransaction'' [JObj dispatched] None) JUndefined])"
proof -
  let ?t = "[(''from'', JStr ''0xab''), (''nonce'', JNum 0), (''gas'', JNum 21000)]"
  have h: "\<forall>k \<in> {''gas'', ''gasPrice'', ''value'', ''nonce''}.
      truthy (getProp ?t k) \<longrightarrow> formatInput (getProp ?t k) None = Inr ''0x5208''"
    by (simp add: getProp_def formatInput_21000)
  from transaction_fields_converted_only_when_truthy
    [of ?t "\<lambda>k. ''0x5208''" nullClient None, OF h]
  obtain dispatched where d:
    "\<forall>k. map_of dispatched k =
          (if k \<in> {''gas'', ''gasPrice'', ''value'', ''nonce''}
           then Some (if truthy (getProp ?t k) then JStr ''0x5208'' else JUndefined)
           else map_of ?t k)"
    "fst (sendTransaction nullClient ?t None) =
       [(if subscribeOf None then Subscribed else Sent)
          (request ''eth_sendTransaction'' [JObj dispatched] None) (providerCallOptionsOf None)]"
    by blast
  from d(1) have
    "map_of dispatched ''from'' = Some (JStr ''0xab'')"
    "map_of dispatched ''gas'' = Some (JStr ''0x5208'')"
    "map_of dispatched ''nonce'' = Some JUndefined"
    "map_of dispatched ''value'' = Some JUndefined"
    by (simp_all add: getProp_def)
  moreover from d(2) have "fst (sendTransaction nullClient ?t None) =
        [Sent (request ''eth_sendTransaction'' [JObj dispatched] None) JUndefined]"
    by (simp add: subscribeOf_def providerCallOptionsOf_def)
  moreover have "truthy (getProp ?t ''gas'') \<and>
      formatInput (getProp ?t ''gas'') None = Inr ''0x5208'' \<and>
      \<not> truthy (getProp ?t ''gasPrice'') \<and> \<not> truthy (getProp ?t ''value'') \<and>
      \<not> truthy (getProp ?t ''nonce'')"
    by (simp add: getProp_def formatInput_21000)
  ultimately show ?thesis using formatInput_0 by blast
qed


subsection \<open>The per-call output representation\<close>

lemma convert_hex_HexString_10: "convert (JStr ''0x10'') HexString = Inr (JStr ''0x10'')"
  by (simp add: convert_def parseValue_def isHexString_def isHexDigit_def digitValue_def
      digitsValue_def toHexString_def toDigits.simps digitChar_def)

lemma convert_hex_HexString_20: "convert (JStr ''0x20'') HexString = Inr (JStr ''0x20'')"
  by (simp add: convert_def parseValue_def isHexString_def isHexDigit_def digitValue_def
      digitsValue_def toHexString_def toDigits.simps digitChar_def)

lemma convert_hex_HexString_30: "convert (JStr ''0x30'') HexString = Inr (JStr ''0x30'')"
  by (simp add: convert_def parseValue_def isHexString_def isHexDigit_def digitValue_def
      digitsValue_def toHexString_def toDigits.simps digitChar_def)

text \<open>
  Claim C4 says that a per-call \<^verbatim>\<open>returnType\<close> takes precedence over the client's default
  in every operation that normalizes its result, \<^verbatim>\<open>getSyncing\<close> in particular. What
  \<^verbatim>\<open>getSyncing\<close> does: its outcome does not depend on the \<^verbatim>\<open>returnType\<close> of the call
  options at all, because it passes \<^verbatim>\<open>this._defaultReturnType\<close> alone; on a client with the
  default HexString, a call that asks for Number gets the hex strings of the node, where
  the override would have given the numbers 16, 32 and 48.
\<close>

theorem getSyncing_ignores_returnType_override:
  "getSyncing this (Some (callOptions\<lparr>returnType := override\<rparr>)) =
     getSyncing this (Some callOptions) \<and>
   snd (getSyncing (syncingClient None) (Some (withReturnType Number))) =
     Inr (Response
       [(''id'', JNum 1), (''jsonrpc'', JStr ''2.0''),
        (''result'', JObj [(''startingBlock'', JStr ''0x10''), (''currentBlock'', JStr ''0x20''),
                          (''highestBlock'', JStr ''0x30''), (''knownStates'', JStr ''0x40'')])]) \<and>
   formatRpcResultArray (getProp syncingResponse ''result'')
     [''startingBlock'', ''currentBlock'', ''highestBlock'']
     (returnTypeOr (Some (withReturnType Number)) (defaultReturnType (syncingClient None))) =
     Inr (JObj [(''startingBlock'', JNum 16), (''currentBlock'', JNum 32),
                (''highestBlock'', JNum 48), (''knownStates'', JStr ''0x40'')])"
proof (intro conjI)
  show "getSyncing this (Some (callOptions\<lparr>returnType := override\<rparr>)) =
     getSyncing this (Some callOptions)"
    by (simp add: getSyncing_def withParams_def sendAndFormat_def Web3Eth_send_def
        Web3Eth_subscribe_def request_def rpcOptionsOf_def providerCallOptionsOf_def
        subscribeOf_def)
next
  show "snd (getSyncing (syncingClient None) (Some (withReturnType Number))) =
     Inr (Response
       [(''id'', JNum 1), (''jsonrpc'', JStr ''2.0''),
        (''result'', JObj [(''startingBlock'', JStr ''0x10''), (''currentBlock'', JStr ''0x20''),
                          (''highestBlock'', JStr ''0x30''), (''knownStates'', JStr ''0x40'')])])"
    by (simp add: getSyncing_def withParams_def sendAndFormat_def Web3Eth_send_def
        subscribeOf_def withReturnType_def syncingClient_def constructor_def syncingResponse_def
        tryCatch_def getProp_def formatRpcResultArray_def normalizeRecord_def
        convert_hex_HexString_10 convert_hex_HexString_20 convert_hex_HexString_30)
next
  show "formatRpcResultArray (getProp syncingResponse ''result'')
     [''startingBlock'', ''currentBlock'', ''highestBlock'']
     (returnTypeOr (Some (withReturnType Number)) (defaultReturnType (syncingClient None))) =
     Inr (JObj [(''startingBlock'', JNum 16), (''currentBlock'', JNum 32),
                (''highestBlock'', JNum 48), (''knownStates'', JStr ''0x40'')])"
    by (simp add: returnTypeOr_def withReturnType_def syncingResponse_def getProp_def
        formatRpcResultArray_def normalizeRecord_def
        convert_hex_Number_16 convert_hex_Number_32 convert_hex_Number_48)
qed

subsection \<open>Method names\<close>

text \<open>
  Claim C1 says that each operation dispatches its entry of the Ethereum JSON-RPC
  catalogue, \<^verbatim>\<open>eth_getBalance\<close> for \<^verbatim>\<open>getBalance\<close> and the Keccak-256 method
  \<^verbatim>\<open>web3_sha3\<close> for \<^verbatim>\<open>getSha3\<close>. What the two methods do: \<^verbatim>\<open>getBalance\<close> sends a request
  whose method is \<^verbatim>\<open>net_version\<close>, and \<^verbatim>\<open>getSha3\<close> one whose method is
  \<^verbatim>\<open>web3_clientVersion\<close>.
\<close>

theorem getBalance_and_getSha3_method_names:
  "fst (getBalance this address (JStr ''latest'') None) =
     [Sent [(''method'', JStr ''net_version''),
            (''params'', JArr [JStr address, JStr ''latest''])] JUndefined] \<and>
   fst (getSha3 this data None) =
     [Sent [(''method'', JStr ''web3_clientVersion''), (''params'', JArr [JStr data])]
        JUndefined]"
  by (simp add: getBalance_def getSha3_def tryCatch_fst withParams_def Web3Eth_isBlockTag_def
      BlockTags_def sendAndFormat_fst sendOrSubscribe_fst subscribeOf_def request_def
      rpcOptionsOf_def providerCallOptionsOf_def)

subsection \<open>Block identifiers\<close>

lemma formatInput_not_numeral:
  "\<not> isHexString s \<Longrightarrow> \<not> isDecimalString s \<Longrightarrow>
   formatInput (JStr s) None = Inl (ConversionError (JStr s))"
  by (simp add: formatInput_def parseValue_def)

lemma blockTags_not_numerals:
  "\<not> isHexString ''latest''" "\<not> isDecimalString ''latest''"
  "\<not> isHexString ''earliest''" "\<not> isDecimalString ''earliest''"
  "\<not> isHexString ''pending''" "\<not> isDecimalString ''pending''"
  by (simp_all add: isHexString_def isDecimalString_def isDecimalDigit_def digitValue_def)

text \<open>
  Claim C2 says that every operation taking a block identifier dispatches the keywords
  \<^verbatim>\<open>latest\<close>, \<^verbatim>\<open>earliest\<close> and \<^verbatim>\<open>pending\<close> verbatim, without conversion, and the integer
  100 as \<^verbatim>\<open>"0x64"\<close>. What \<^verbatim>\<open>getTransactionCount\<close> does: it hands the keyword to
  \<^verbatim>\<open>formatInput\<close>, which rejects it, so nothing is sent and the call fails with the
  wrapped conversion error; 100 it dispatches as \<^verbatim>\<open>"0x64"\<close>. \<^verbatim>\<open>getBalance\<close>, which tests
  \<^verbatim>\<open>_isBlockTag\<close> first, dispatches the keyword verbatim and 100 as \<^verbatim>\<open>"0x64"\<close>.
\<close>

theorem getTransactionCount_converts_block_tags:
  "getTransactionCount this address (JStr ''latest'') callOptions =
     ([], Inl (Error ''Error getting transaction count'' (ConversionError (JStr ''latest'')))) \<and>
   getTransactionCount this address (JStr ''earliest'') callOptions =
     ([], Inl (Error ''Error getting transaction count'' (ConversionError (JStr ''earliest'')))) \<and>
   getTransactionCount this address (JStr ''pending'') callOptions =
     ([], Inl (Error ''Error getting transaction count'' (ConversionError (JStr ''pending'')))) \<and>
   fst (getTransactionCount this address (JNum 100) None) =
     [Sent [(''method'', JStr ''eth_getTransactionCount''),
            (''params'', JArr [JStr address, JStr ''0x64''])] JUndefined] \<and>
   fst (getBalance this address (JStr ''pending'') None) =
     [Sent [(''method'', JStr ''net_version''),
            (''params'', JArr [JStr address, JStr ''pending''])] JUndefined] \<and>
   fst (getBalance this address (JNum 100) None) =
     [Sent [(''method'', JStr ''net_version''),
            (''params'', JArr [JStr address, JStr ''0x64''])] JUndefined]"
proof -
  have rejected: "\<And>tag. \<not> isHexString tag \<Longrightarrow> \<not> isDecimalString tag \<Longrightarrow>
    getTransactionCount this address (JStr tag) callOptions =
      ([], Inl (Error ''Error getting transaction count'' (ConversionError (JStr tag))))"
    by (simp add: getTransactionCount_def withParams_def inputParam_def
        formatInput_not_numeral tryCatch_def)
  have sent: "fst (getTransactionCount this address (JNum 100) None) =
     [Sent [(''method'', JStr ''eth_getTransactionCount''),
            (''params'', JArr [JStr address, JStr ''0x64''])] JUndefined]"
    "fst (getBalance this address (JStr ''pending'') None) =
     [Sent [(''method'', JStr ''net_version''),
            (''params'', JArr [JStr address, JStr ''pending''])] JUndefined]"
    "fst (getBalance this address (JNum 100) None) =
     [Sent [(''method'', JStr ''net_version''),
            (''params'', JArr [JStr address, JStr ''0x64''])] JUndefined]"
    by (simp_all add: getTransactionCount_def getBalance_def tryCatch_fst withParams_def
        inputParam_def formatInput_100 Web3Eth_isBlockTag_def BlockTags_def sendAndFormat_fst
        subscribeOf_def request_def rpcOptionsOf_def providerCallOptionsOf_def)
  from rejected [of "''latest''"] rejected [of "''earliest''"] rejected [of "''pending''"] sent
  show ?thesis by (simp add: blockTags_not_numerals)
qed


end
